theory Spec2Isabelle
  imports Complex_Main
begin


section \<open>JavaScript values\<close>

text \<open>
  The library stores arbitrary JavaScript values in its cells. The model covers the
  primitive values and \<open>Date\<close> objects, which are what the type switch of
  \<open>DataRow.set\<close> produces. A finite number is represented by its exact value
  (rounding to binary64 and the sign of zero are not represented). A \<open>Date\<close> is an
  object: it carries the identity it was allocated with, since \<open>===\<close> compares two
  dates by identity, and its time value. Strings are sequences of Latin-1 code units.
  \<open>JObjectPrototype\<close> is the object \<open>Object.prototype\<close>: it is what the property
  \<open>__proto__\<close> of a plain object reads at first. Built-in functions are not values of the
  model; the read of a property that holds one is the error \<open>BuiltinFunction\<close> below.
\<close>

datatype jsnum = NaN | PosInf | NegInf | Fin rat

datatype jsval =
    JUndefined
  | JNull
  | JBool bool
  | JNumber jsnum
  | JString string
  | JDate nat jsnum
  | JObjectPrototype

text \<open>
  Built-ins of the host whose result the language standard leaves to the implementation
  or to the locale: they are parameters of the model. \<open>Date_prototype_has\<close> tells the
  names of the properties of \<open>Date.prototype\<close>, all of them methods.
\<close>

record host =
  Number_toString :: "rat \<Rightarrow> string"
  Date_parse :: "string \<Rightarrow> jsnum"
  Date_toString :: "jsnum \<Rightarrow> string"
  localeCompare :: "string \<Rightarrow> string \<Rightarrow> jsnum"
  Date_prototype_has :: "string \<Rightarrow> bool"

subsection \<open>\<open>String.prototype.toLowerCase\<close>\<close>

definition lowerChar :: "char \<Rightarrow> char" where
  "lowerChar c =
     (let n = (of_char c :: nat)
      in if (65 \<le> n \<and> n \<le> 90) \<or> (192 \<le> n \<and> n \<le> 222 \<and> n \<noteq> 215)
         then char_of (n + 32) else c)"

definition toLowerCase :: "string \<Rightarrow> string" where
  "toLowerCase s = map lowerChar s"

subsection \<open>\<open>Number(value)\<close>: the conversion of a string\<close>

definition isWhiteSpace :: "char \<Rightarrow> bool" where
  "isWhiteSpace c = ((of_char c :: nat) \<in> {9, 10, 11, 12, 13, 32, 160})"

definition trimString :: "string \<Rightarrow> string" where
  "trimString s = rev (dropWhile isWhiteSpace (rev (dropWhile isWhiteSpace s)))"

definition digitValue :: "char \<Rightarrow> nat option" where
  "digitValue c =
     (let n = (of_char c :: nat)
      in if 48 \<le> n \<and> n \<le> 57 then Some (n - 48)
         else if 97 \<le> n \<and> n \<le> 102 then Some (n - 87)
         else if 65 \<le> n \<and> n \<le> 70 then Some (n - 55)
         else None)"

definition isDigitOf :: "nat \<Rightarrow> char \<Rightarrow> bool" where
  "isDigitOf b c = (case digitValue c of None \<Rightarrow> False | Some d \<Rightarrow> d < b)"

definition digitsValue :: "nat \<Rightarrow> string \<Rightarrow> nat" where
  "digitsValue b s =
     foldl (\<lambda>acc c. acc * b + (case digitValue c of None \<Rightarrow> 0 | Some d \<Rightarrow> d)) 0 s"

definition isDigits :: "nat \<Rightarrow> string \<Rightarrow> bool" where
  "isDigits b s = (s \<noteq> [] \<and> list_all (isDigitOf b) s)"

definition pow10 :: "int \<Rightarrow> rat" where
  "pow10 e = (if 0 \<le> e then 10 ^ nat e else 1 / 10 ^ nat (- e))"

text \<open>The exponent part of a decimal literal; the empty rest is the exponent 0.\<close>

definition parseExponent :: "string \<Rightarrow> int option" where
  "parseExponent s =
     (case s of
        [] \<Rightarrow> Some 0
      | c # r \<Rightarrow>
          if c = CHR ''e'' \<or> c = CHR ''E'' then
            (case r of
               [] \<Rightarrow> None
             | d # r' \<Rightarrow>
                 if d = CHR ''+'' then
                   (if isDigits 10 r' then Some (int (digitsValue 10 r')) else None)
                 else if d = CHR ''-'' then
                   (if isDigits 10 r' then Some (- int (digitsValue 10 r')) else None)
                 else if isDigits 10 r then Some (int (digitsValue 10 r))
                 else None)
          else None)"

definition parseUnsignedDecimal :: "string \<Rightarrow> jsnum" where
  "parseUnsignedDecimal s =
     (if s = ''Infinity'' then PosInf
      else
        let ip = takeWhile (isDigitOf 10) s; r1 = dropWhile (isDigitOf 10) s
        in case r1 of
             [] \<Rightarrow> if ip = [] then NaN else Fin (of_nat (digitsValue 10 ip))
           | c # r \<Rightarrow>
               if c = CHR ''.'' then
                 (let fp = takeWhile (isDigitOf 10) r; r2 = dropWhile (isDigitOf 10) r
                  in if ip = [] \<and> fp = [] then NaN
                     else case parseExponent r2 of
                            None \<Rightarrow> NaN
                          | Some e \<Rightarrow>
                              Fin ((of_nat (digitsValue 10 ip)
                                    + of_nat (digitsValue 10 fp) / 10 ^ length fp) * pow10 e))
               else if ip = [] then NaN
               else case parseExponent r1 of
                      None \<Rightarrow> NaN
                    | Some e \<Rightarrow> Fin (of_nat (digitsValue 10 ip) * pow10 e))"

definition negate :: "jsnum \<Rightarrow> jsnum" where
  "negate x = (case x of NaN \<Rightarrow> NaN | PosInf \<Rightarrow> NegInf | NegInf \<Rightarrow> PosInf | Fin q \<Rightarrow> Fin (- q))"

definition parseRadix :: "nat \<Rightarrow> string \<Rightarrow> jsnum" where
  "parseRadix b s = (if isDigits b s then Fin (of_nat (digitsValue b s)) else NaN)"

definition StringToNumber :: "string \<Rightarrow> jsnum" where
  "StringToNumber str =
     (case trimString str of
        [] \<Rightarrow> Fin 0
      | c # r \<Rightarrow>
          if c = CHR ''+'' then parseUnsignedDecimal r
          else if c = CHR ''-'' then negate (parseUnsignedDecimal r)
          else if c = CHR ''0'' \<and> r \<noteq> [] \<and> (hd r = CHR ''x'' \<or> hd r = CHR ''X'')
            then parseRadix 16 (tl r)
          else if c = CHR ''0'' \<and> r \<noteq> [] \<and> (hd r = CHR ''o'' \<or> hd r = CHR ''O'')
            then parseRadix 8 (tl r)
          else if c = CHR ''0'' \<and> r \<noteq> [] \<and> (hd r = CHR ''b'' \<or> hd r = CHR ''B'')
            then parseRadix 2 (tl r)
          else parseUnsignedDecimal (c # r))"

subsection \<open>The conversions used by the library\<close>

text \<open>\<open>Number(value)\<close>; a \<open>Date\<close> converts to its time value, \<open>Object.prototype\<close> to the
  number of the string \<open>"[object Object]"\<close>.\<close>

fun Number :: "jsval \<Rightarrow> jsnum" where
  "Number JUndefined = NaN"
| "Number JNull = Fin 0"
| "Number (JBool b) = (if b then Fin 1 else Fin 0)"
| "Number (JNumber n) = n"
| "Number (JString s) = StringToNumber s"
| "Number (JDate i t) = t"
| "Number JObjectPrototype = NaN"

definition isNaN :: "jsnum \<Rightarrow> bool" where
  "isNaN n = (n = NaN)"

text \<open>\<open>String(value)\<close>.\<close>

fun String :: "host \<Rightarrow> jsval \<Rightarrow> string" where
  "String H JUndefined = ''undefined''"
| "String H JNull = ''null''"
| "String H (JBool b) = (if b then ''true'' else ''false'')"
| "String H (JNumber NaN) = ''NaN''"
| "String H (JNumber PosInf) = ''Infinity''"
| "String H (JNumber NegInf) = ''-Infinity''"
| "String H (JNumber (Fin q)) = Number_toString H q"
| "String H (JString s) = s"
| "String H (JDate i t) = Date_toString H t"
| "String H JObjectPrototype = ''[object Object]''"

text \<open>\<open>Boolean(value)\<close>.\<close>

fun Boolean :: "jsval \<Rightarrow> bool" where
  "Boolean JUndefined = False"
| "Boolean JNull = False"
| "Boolean (JBool b) = b"
| "Boolean (JNumber n) = (n \<noteq> NaN \<and> n \<noteq> Fin 0)"
| "Boolean (JString s) = (s \<noteq> [])"
| "Boolean (JDate i t) = True"
| "Boolean JObjectPrototype = True"

text \<open>\<open>value instanceof Date\<close>.\<close>

fun instanceofDate :: "jsval \<Rightarrow> bool" where
  "instanceofDate (JDate i t) = True"
| "instanceofDate v = False"

text \<open>
  The time value of \<open>new Date(value)\<close>: a date gives its own time value, a string is
  parsed, \<open>Object.prototype\<close> is converted to a string and parsed, anything else is
  converted to a number; the result is clipped to the range of
  time values and truncated to a whole number of milliseconds.
\<close>

definition TimeClip :: "jsnum \<Rightarrow> jsnum" where
  "TimeClip t =
     (case t of
        Fin q \<Rightarrow> if \<bar>q\<bar> > 8640000000000000 then NaN
                 else Fin (of_int (if 0 \<le> q then \<lfloor>q\<rfloor> else - \<lfloor>- q\<rfloor>))
      | _ \<Rightarrow> NaN)"

definition DateValue :: "host \<Rightarrow> jsval \<Rightarrow> jsnum" where
  "DateValue H v =
     (case v of
        JDate i t \<Rightarrow> TimeClip t
      | JString s \<Rightarrow> TimeClip (Date_parse H s)
      | JObjectPrototype \<Rightarrow> TimeClip (Date_parse H ''[object Object]'')
      | _ \<Rightarrow> TimeClip (Number v))"

text \<open>\<open>a === b\<close>: \<open>NaN\<close> differs from itself, two objects are equal when they are the
  same object.\<close>

fun strictEq :: "jsval \<Rightarrow> jsval \<Rightarrow> bool" where
  "strictEq (JNumber a) (JNumber b) = (a \<noteq> NaN \<and> a = b)"
| "strictEq (JDate i s) (JDate j t) = (i = j)"
| "strictEq a b = (a = b)"

section \<open>The data model\<close>

text \<open>
  The code throws \<open>Error\<close> objects that differ only by their message; the constructors
  below are the kinds of failure the messages stand for. \<open>TypeError\<close> is the runtime's
  own error for a call of something that is not a function. Two constructors have no
  counterpart in JavaScript. \<open>InvalidReference\<close> is the reading of an address that the
  store does not hold. \<open>BuiltinFunction\<close> is the read of a property whose value is a
  built-in function (a method that a plain object inherits from \<open>Object.prototype\<close> or
  from \<open>Date.prototype\<close>): the code goes on with that function as a value, the model
  does not follow it.
\<close>

datatype error =
    NotFound
  | DuplicateName
  | NullNotAllowed
  | TypeCoercionError
  | IndexOutOfRange
  | TypeError
  | InvalidReference
  | BuiltinFunction

section \<open>Plain objects\<close>

text \<open>
  \<open>_values\<close> and \<open>_originalValues\<close> of a row are plain objects, created by \<open>{}\<close>: such
  an object has its own properties and a prototype, at first \<open>Object.prototype\<close>. The
  library reads them with \<open>obj[key]\<close>, writes them with \<open>obj[key] = value\<close> and
  \<open>Object.assign\<close>, deletes from them, and calls \<open>obj.hasOwnProperty(key)\<close>. The only
  values that can become the prototype are those of the model that are objects: a
  \<open>Date\<close>, \<open>Object.prototype\<close>, and \<open>null\<close>.
\<close>

record obj =
  props :: "string \<rightharpoonup> jsval"
  prototype :: jsval

definition emptyObject :: obj where
  "emptyObject = \<lparr>props = Map.empty, prototype = JObjectPrototype\<rparr>"

text \<open>
  The names of the properties of \<open>Object.prototype\<close> that hold functions (the standard
  with its annex B). Its one other property is the accessor \<open>__proto__\<close>.
\<close>

definition Object_prototype_names :: "string list" where
  "Object_prototype_names =
     [''constructor'', ''hasOwnProperty'', ''isPrototypeOf'', ''propertyIsEnumerable'',
      ''toLocaleString'', ''toString'', ''valueOf'', ''__defineGetter__'', ''__defineSetter__'',
      ''__lookupGetter__'', ''__lookupSetter__'']"

text \<open>
  \<open>obj[key]\<close>: an own property reads its value. Otherwise the prototype chain is
  searched: there is none below \<open>null\<close>; the getter of \<open>__proto__\<close> returns the prototype
  of the object; \<open>Object.prototype\<close>, and \<open>Date.prototype\<close> when the prototype is a date,
  hold functions; any other property reads \<open>undefined\<close>.
\<close>

definition getProp :: "host \<Rightarrow> obj \<Rightarrow> string \<Rightarrow> error + jsval" where
  "getProp H ob k =
     (case props ob k of
        Some v \<Rightarrow> Inr v
      | None \<Rightarrow>
          if prototype ob = JNull then Inr JUndefined
          else if k = ''__proto__'' then Inr (prototype ob)
          else if k \<in> set Object_prototype_names
                  \<or> (instanceofDate (prototype ob) \<and> Date_prototype_has H k)
            then Inl BuiltinFunction
          else Inr JUndefined)"

text \<open>\<open>typeof value === 'object'\<close>, among the values of the model: an object, or \<open>null\<close>.\<close>

definition isObjectOrNull :: "jsval \<Rightarrow> bool" where
  "isObjectOrNull v = (v = JNull \<or> v = JObjectPrototype \<or> instanceofDate v)"

text \<open>
  \<open>obj[key] = value\<close>: an own property is overwritten. A property that the object does
  not have is created, unless the key is \<open>__proto__\<close> and the chain reaches
  \<open>Object.prototype\<close>: then the setter of \<open>__proto__\<close> runs, which makes an object or
  \<open>null\<close> the new prototype and ignores any other value. No property is created then.
  The inherited properties are writable, so that none of them stops the creation.
\<close>

definition setProp :: "obj \<Rightarrow> string \<Rightarrow> jsval \<Rightarrow> obj" where
  "setProp ob k v =
     (if k \<in> dom (props ob) \<or> prototype ob = JNull \<or> k \<noteq> ''__proto__''
      then ob\<lparr>props := (props ob)(k \<mapsto> v)\<rparr>
      else if isObjectOrNull v then ob\<lparr>prototype := v\<rparr>
      else ob)"

text \<open>\<open>delete obj[key]\<close>.\<close>

definition deleteProp :: "obj \<Rightarrow> string \<Rightarrow> obj" where
  "deleteProp ob k = ob\<lparr>props := (props ob)(k := None)\<rparr>"

text \<open>
  \<open>obj.hasOwnProperty(key)\<close>: the method is looked up on the object. An own property
  named \<open>hasOwnProperty\<close> hides it, and its value, not a function, cannot be called;
  neither can \<open>undefined\<close>, which an object without prototype gives.
\<close>

definition hasOwnProperty :: "obj \<Rightarrow> string \<Rightarrow> error + bool" where
  "hasOwnProperty ob k =
     (if ''hasOwnProperty'' \<in> dom (props ob) \<or> prototype ob = JNull then Inl TypeError
      else Inr (k \<in> dom (props ob)))"

text \<open>
  \<open>Object.assign(target, source)\<close> assigns every own property of the source to the
  target, with \<open>target[key] = value\<close>. The assignments do not depend on one another: a
  key other than \<open>__proto__\<close> becomes an own property of the target whatever its
  prototype is, so that the order of the keys makes no difference.
\<close>

definition Object_assign :: "obj \<Rightarrow> obj \<Rightarrow> obj" where
  "Object_assign target source =
     (let t1 = target\<lparr>props := props target ++ (props source)(''__proto__'' := None)\<rparr>
      in case props source ''__proto__'' of
           None \<Rightarrow> t1
         | Some v \<Rightarrow> setProp t1 ''__proto__'' v)"

section \<open>Columns, rows, tables and the store\<close>

datatype DataRowState = ADDED | MODIFIED | DELETED | UNCHANGED

text \<open>
  A column is an object. The library writes two of its fields after the construction,
  \<open>ordinal\<close> and \<open>_table\<close>; both are kept in the store, under the identity \<open>c_id\<close> of
  the column, so that a column that two tables hold is one column. The other fields
  are written by the constructor and by \<open>clone\<close> only.
\<close>

record column =
  c_id :: nat
  columnName :: string
  dataType :: "string option"
  allowNull :: bool
  defaultValue :: jsval
  caption :: string
  expression :: jsval
  readOnly :: bool
  unique :: bool

text \<open>
  Rows and tables are objects: they live in a store and are referred to by their
  address, the position at which they were allocated. A table holds its columns in
  insertion order (the \<open>Map\<close> of \<open>DataColumnCollection\<close>) and the addresses of its rows
  (the array of \<open>DataRowCollection\<close>). The counter \<open>h_dates\<close> gives the next \<open>Date\<close>
  object its identity, the counter \<open>h_columns\<close> the next column; \<open>h_ordinal\<close> and
  \<open>h_columnTable\<close> are the fields \<open>ordinal\<close> and \<open>_table\<close> of the columns.
\<close>

record row =
  r_table :: nat
  r_values :: obj
  r_originalValues :: obj
  r_rowState :: DataRowState

record table =
  tableName :: string
  t_rows :: "nat list"
  t_columns :: "column list"
  caseSensitive :: bool

record heap =
  h_tables :: "table list"
  h_rows :: "row list"
  h_dates :: nat
  h_columns :: nat
  h_ordinal :: "nat \<Rightarrow> int"
  h_columnTable :: "nat \<Rightarrow> nat option"

definition the_table :: "heap \<Rightarrow> nat \<Rightarrow> table option" where
  "the_table h t = (if t < length (h_tables h) then Some (h_tables h ! t) else None)"

definition the_row :: "heap \<Rightarrow> nat \<Rightarrow> row option" where
  "the_row h a = (if a < length (h_rows h) then Some (h_rows h ! a) else None)"

definition upd_table :: "nat \<Rightarrow> (table \<Rightarrow> table) \<Rightarrow> heap \<Rightarrow> heap" where
  "upd_table t f h = h\<lparr>h_tables := (h_tables h)[t := f (h_tables h ! t)]\<rparr>"

definition upd_row :: "nat \<Rightarrow> (row \<Rightarrow> row) \<Rightarrow> heap \<Rightarrow> heap" where
  "upd_row a f h = h\<lparr>h_rows := (h_rows h)[a := f (h_rows h ! a)]\<rparr>"

definition alloc_row :: "row \<Rightarrow> heap \<Rightarrow> nat \<times> heap" where
  "alloc_row r h = (length (h_rows h), h\<lparr>h_rows := h_rows h @ [r]\<rparr>)"

definition alloc_table :: "table \<Rightarrow> heap \<Rightarrow> nat \<times> heap" where
  "alloc_table T h = (length (h_tables h), h\<lparr>h_tables := h_tables h @ [T]\<rparr>)"

text \<open>\<open>column.ordinal\<close>.\<close>

definition ordinal :: "heap \<Rightarrow> column \<Rightarrow> int" where
  "ordinal h c = h_ordinal h (c_id c)"

section \<open>DataColumn\<close>

text \<open>
  \<open>new DataColumn(columnName, dataType, allowNull, defaultValue)\<close>: the fields that the
  constructor writes, for the column with the identity \<open>i\<close>; and the construction in
  the store, which gives the column the next identity.
\<close>

definition newColumn :: "nat \<Rightarrow> string \<Rightarrow> string option \<Rightarrow> bool \<Rightarrow> jsval \<Rightarrow> column" where
  "newColumn i name dt an dv =
     \<lparr>c_id = i, columnName = name, dataType = dt, allowNull = an, defaultValue = dv,
      caption = name, expression = JNull, readOnly = False, unique = False\<rparr>"

definition DataColumn :: "string \<Rightarrow> string option \<Rightarrow> bool \<Rightarrow> jsval \<Rightarrow> heap \<Rightarrow> column \<times> heap" where
  "DataColumn name dt an dv h =
     (newColumn (h_columns h) name dt an dv,
      h\<lparr>h_columns := Suc (h_columns h),
        h_ordinal := (h_ordinal h)(h_columns h := - 1),
        h_columnTable := (h_columnTable h)(h_columns h := None)\<rparr>)"

section \<open>DataColumnCollection\<close>

definition contains :: "column list \<Rightarrow> string \<Rightarrow> bool" where
  "contains cols name = (name \<in> set (map columnName cols))"

text \<open>\<open>_columns.get(name)\<close>.\<close>

definition columns_get :: "column list \<Rightarrow> string \<Rightarrow> column option" where
  "columns_get cols name = find (\<lambda>c. columnName c = name) cols"

text \<open>
  \<open>add(column)\<close> for a \<open>DataColumn\<close> instance: the instance itself is written
  (\<open>_table\<close>, \<open>ordinal\<close>) and stored, and every row of the table is given the default.
\<close>

definition DataColumnCollection_add :: "nat \<Rightarrow> column \<Rightarrow> heap \<Rightarrow> (error + column) \<times> heap" where
  "DataColumnCollection_add t col h =
     (case the_table h t of
        None \<Rightarrow> (Inl InvalidReference, h)
      | Some T \<Rightarrow>
          if contains (t_columns T) (columnName col) then (Inl DuplicateName, h)
          else
            let h0 = h\<lparr>h_columnTable := (h_columnTable h)(c_id col \<mapsto> t),
                       h_ordinal := (h_ordinal h)(c_id col := int (length (t_columns T)))\<rparr>;
                h1 = upd_table t (\<lambda>T. T\<lparr>t_columns := t_columns T @ [col]\<rparr>) h0;
                h2 = fold (\<lambda>a. upd_row a
                             (\<lambda>r. r\<lparr>r_values := setProp (r_values r) (columnName col)
                                                   (defaultValue col)\<rparr>))
                       (t_rows T) h1
            in (Inr col, h2))"

text \<open>\<open>add(name, dataType)\<close>: the column is constructed first.\<close>

definition DataColumnCollection_add_name ::
    "nat \<Rightarrow> string \<Rightarrow> string option \<Rightarrow> heap \<Rightarrow> (error + column) \<times> heap" where
  "DataColumnCollection_add_name t name dt h =
     (let (col, h1) = DataColumn name dt True JNull h in DataColumnCollection_add t col h1)"

text \<open>
  \<open>remove(name)\<close>: the column leaves the map, its key is deleted from every row of the
  table, and the columns that remain are numbered anew, each instance being written.
\<close>

definition renumber :: "column list \<Rightarrow> heap \<Rightarrow> heap" where
  "renumber cols h =
     fold (\<lambda>(i, c) h. h\<lparr>h_ordinal := (h_ordinal h)(c_id c := int i)\<rparr>) (enumerate 0 cols) h"

definition DataColumnCollection_remove :: "nat \<Rightarrow> string \<Rightarrow> heap \<Rightarrow> (error + unit) \<times> heap" where
  "DataColumnCollection_remove t name h =
     (case the_table h t of
        None \<Rightarrow> (Inl InvalidReference, h)
      | Some T \<Rightarrow>
          if \<not> contains (t_columns T) name then (Inl NotFound, h)
          else
            let rest = filter (\<lambda>c. columnName c \<noteq> name) (t_columns T);
                h1 = upd_table t (\<lambda>T. T\<lparr>t_columns := rest\<rparr>) h;
                h2 = fold (\<lambda>a. upd_row a (\<lambda>r. r\<lparr>r_values := deleteProp (r_values r) name\<rparr>))
                       (t_rows T) h1
            in (Inr (), renumber rest h2))"

section \<open>DataRow\<close>

text \<open>The constructor: every column of the table is assigned its default; state \<open>ADDED\<close>.\<close>

definition DataRow :: "nat \<Rightarrow> table \<Rightarrow> row" where
  "DataRow t T =
     \<lparr>r_table = t,
      r_values = fold (\<lambda>c ob. setProp ob (columnName c) (defaultValue c)) (t_columns T) emptyObject,
      r_originalValues = emptyObject,
      r_rowState = ADDED\<rparr>"

datatype key = Name string | Index jsnum

text \<open>
  \<open>columnNames[index]\<close> for a number: an element only at a whole index inside the array.
\<close>

definition name_at :: "column list \<Rightarrow> jsnum \<Rightarrow> string option" where
  "name_at cols i =
     (case i of
        Fin q \<Rightarrow>
          if q = of_int \<lfloor>q\<rfloor> \<and> 0 \<le> q \<and> nat \<lfloor>q\<rfloor> < length cols
          then Some (columnName (cols ! nat \<lfloor>q\<rfloor>)) else None
      | _ \<Rightarrow> None)"

definition DataRow_get :: "host \<Rightarrow> nat \<Rightarrow> key \<Rightarrow> heap \<Rightarrow> error + jsval" where
  "DataRow_get H a k h =
     (case the_row h a of
        None \<Rightarrow> Inl InvalidReference
      | Some r \<Rightarrow>
          (case the_table h (r_table r) of
             None \<Rightarrow> Inl InvalidReference
           | Some T \<Rightarrow>
               (case k of
                  Index i \<Rightarrow>
                    (case name_at (t_columns T) i of
                       None \<Rightarrow> Inl NotFound
                     | Some n \<Rightarrow>
                         if \<not> contains (t_columns T) n then Inl NotFound
                         else getProp H (r_values r) n)
                | Name n \<Rightarrow>
                    if \<not> contains (t_columns T) n then Inl NotFound
                    else getProp H (r_values r) n)))"

text \<open>
  The type validation of \<open>set\<close> (the \<open>switch\<close> on the lower-cased type). The second
  component is the counter of date identities: \<open>new Date(value)\<close> takes the next one.
\<close>

definition convertValue :: "host \<Rightarrow> column \<Rightarrow> jsval \<Rightarrow> nat \<Rightarrow> error + jsval \<times> nat" where
  "convertValue H c v d =
     (if v \<noteq> JNull \<and> dataType c \<noteq> None \<and> dataType c \<noteq> Some [] then
        (let ty = toLowerCase (the (dataType c)) in
         if ty = ''number'' then
           (if isNaN (Number v) then Inl TypeCoercionError
            else Inr (JNumber (Number v), d))
         else if ty = ''date'' then
           (if \<not> instanceofDate v \<and> isNaN (Date_parse H (String H v))
            then Inl TypeCoercionError
            else Inr (JDate d (DateValue H v), Suc d))
         else if ty = ''string'' then Inr (JString (String H v), d)
         else if ty = ''boolean'' then
           (case v of JBool b \<Rightarrow> Inr (v, d) | _ \<Rightarrow> Inr (JBool (Boolean v), d))
         else Inr (v, d))
      else Inr (v, d))"

text \<open>
  The end of \<open>set\<close>, after the validation: the value that the column had is kept in
  \<open>_originalValues\<close> unless one is kept already, the value \<open>w\<close> is written, and the state
  becomes \<open>MODIFIED\<close>. The call of \<open>hasOwnProperty\<close> and the read of the old value may
  throw; nothing has been written then.
\<close>

definition written :: "host \<Rightarrow> string \<Rightarrow> jsval \<Rightarrow> row \<Rightarrow> error + row" where
  "written H n w r =
     (case hasOwnProperty (r_originalValues r) n of
        Inl e \<Rightarrow> Inl e
      | Inr kept \<Rightarrow>
          (case (if kept then Inr (r_originalValues r)
                 else (case getProp H (r_values r) n of
                         Inl e \<Rightarrow> Inl e
                       | Inr old \<Rightarrow> Inr (setProp (r_originalValues r) n old))) of
             Inl e \<Rightarrow> Inl e
           | Inr orig \<Rightarrow>
               Inr (r\<lparr>r_originalValues := orig, r_values := setProp (r_values r) n w,
                      r_rowState := MODIFIED\<rparr>)))"

definition DataRow_set :: "host \<Rightarrow> nat \<Rightarrow> string \<Rightarrow> jsval \<Rightarrow> heap \<Rightarrow> (error + unit) \<times> heap" where
  "DataRow_set H a name v h =
     (case the_row h a of
        None \<Rightarrow> (Inl InvalidReference, h)
      | Some r \<Rightarrow>
          (case the_table h (r_table r) of
             None \<Rightarrow> (Inl InvalidReference, h)
           | Some T \<Rightarrow>
               if \<not> contains (t_columns T) name then (Inl NotFound, h)
               else
                 (case columns_get (t_columns T) name of
                    None \<Rightarrow> (Inl NotFound, h)
                  | Some c \<Rightarrow>
                      if v = JNull \<and> \<not> allowNull c then (Inl NullNotAllowed, h)
                      else
                        (case convertValue H c v (h_dates h) of
                           Inl e \<Rightarrow> (Inl e, h)
                         | Inr (w, d) \<Rightarrow>
                             (case written H name w r of
                                Inl e \<Rightarrow> (Inl e, h\<lparr>h_dates := d\<rparr>)
                              | Inr r' \<Rightarrow>
                                  (Inr (), upd_row a (\<lambda>r. r') (h\<lparr>h_dates := d\<rparr>)))))))"

section \<open>DataRowCollection\<close>

text \<open>
  What \<open>add\<close> may be given: a \<open>DataRow\<close> instance, an array of values, an object of
  column-value pairs (its entries in order), \<open>null\<close>, or a value that is not an object.
\<close>

datatype rowInput =
    RowInstance nat
  | Positional "jsval list"
  | Mapping "(string \<times> jsval) list"
  | NullInput
  | Primitive

definition push_row :: "nat \<Rightarrow> nat \<Rightarrow> heap \<Rightarrow> heap" where
  "push_row t a h = upd_table t (\<lambda>T. T\<lparr>t_rows := t_rows T @ [a]\<rparr>) h"

definition DataRowCollection_add :: "nat \<Rightarrow> rowInput \<Rightarrow> heap \<Rightarrow> (error + nat) \<times> heap" where
  "DataRowCollection_add t inp h =
     (case the_table h t of
        None \<Rightarrow> (Inl InvalidReference, h)
      | Some T \<Rightarrow>
          (case inp of
             RowInstance a \<Rightarrow> (Inr a, push_row t a h)
           | Positional xs \<Rightarrow>
               (let (a, h1) = alloc_row (DataRow t T) h;
                    h2 = fold (\<lambda>(i, c). upd_row a
                                 (\<lambda>r. r\<lparr>r_values := setProp (r_values r) (columnName c)
                                          (if i < length xs then xs ! i else JUndefined)\<rparr>))
                           (enumerate 0 (t_columns T)) h1
                in (Inr a, push_row t a h2))
           | Mapping kvs \<Rightarrow>
               (let (a, h1) = alloc_row (DataRow t T) h;
                    h2 = fold (\<lambda>(k, v) h.
                                 if contains (t_columns T) k
                                 then upd_row a (\<lambda>r. r\<lparr>r_values := setProp (r_values r) k v\<rparr>) h
                                 else h)
                           kvs h1
                in (Inr a, push_row t a h2))
           | NullInput \<Rightarrow> (Inl TypeError, snd (alloc_row (DataRow t T) h))
           | Primitive \<Rightarrow>
               (let (a, h1) = alloc_row (DataRow t T) h in (Inr a, push_row t a h1))))"

text \<open>
  \<open>removeAt(index)\<close>; \<open>splice\<close> truncates the index it is given to a whole number.
\<close>

definition in_range :: "jsnum \<Rightarrow> nat \<Rightarrow> bool" where
  "in_range i n = (case i of Fin q \<Rightarrow> 0 \<le> q \<and> q < of_nat n | _ \<Rightarrow> False)"

definition splice1 :: "jsnum \<Rightarrow> 'a list \<Rightarrow> 'a list" where
  "splice1 i xs =
     (case i of Fin q \<Rightarrow> take (nat \<lfloor>q\<rfloor>) xs @ drop (Suc (nat \<lfloor>q\<rfloor>)) xs | _ \<Rightarrow> xs)"

definition DataRowCollection_removeAt :: "nat \<Rightarrow> jsnum \<Rightarrow> heap \<Rightarrow> (error + unit) \<times> heap" where
  "DataRowCollection_removeAt t i h =
     (case the_table h t of
        None \<Rightarrow> (Inl InvalidReference, h)
      | Some T \<Rightarrow>
          if in_range i (length (t_rows T))
          then (Inr (), upd_table t (\<lambda>T. T\<lparr>t_rows := splice1 i (t_rows T)\<rparr>) h)
          else (Inr (), h))"

definition DataRowCollection_clear :: "nat \<Rightarrow> heap \<Rightarrow> heap" where
  "DataRowCollection_clear t h = upd_table t (\<lambda>T. T\<lparr>t_rows := []\<rparr>) h"

section \<open>DataTable\<close>

text \<open>\<open>new DataTable(tableName)\<close>.\<close>

definition DataTable :: "string \<Rightarrow> table" where
  "DataTable name = \<lparr>tableName = name, t_rows = [], t_columns = [], caseSensitive = False\<rparr>"

definition addColumn :: "nat \<Rightarrow> string \<Rightarrow> string option \<Rightarrow> heap \<Rightarrow> (error + column) \<times> heap" where
  "addColumn t name dt h = DataColumnCollection_add_name t name dt h"

definition removeColumn :: "nat \<Rightarrow> string \<Rightarrow> heap \<Rightarrow> (error + unit) \<times> heap" where
  "removeColumn t name h = DataColumnCollection_remove t name h"

definition newRow :: "nat \<Rightarrow> heap \<Rightarrow> (error + nat) \<times> heap" where
  "newRow t h =
     (case the_table h t of
        None \<Rightarrow> (Inl InvalidReference, h)
      | Some T \<Rightarrow> (let (a, h1) = alloc_row (DataRow t T) h in (Inr a, h1)))"

definition addRow :: "nat \<Rightarrow> rowInput \<Rightarrow> heap \<Rightarrow> (error + nat) \<times> heap" where
  "addRow t inp h = DataRowCollection_add t inp h"

definition removeRow :: "nat \<Rightarrow> jsnum \<Rightarrow> heap \<Rightarrow> (error + unit) \<times> heap" where
  "removeRow t i h = DataRowCollection_removeAt t i h"

section \<open>Sequencing\<close>

text \<open>
  An operation takes the store and returns its result, or the error it threw, with the
  store as it left it. \<open>bind\<close> is the semicolon: an error ends the sequence.
\<close>

definition bind :: "(heap \<Rightarrow> (error + 'a) \<times> heap) \<Rightarrow> ('a \<Rightarrow> heap \<Rightarrow> (error + 'b) \<times> heap)
    \<Rightarrow> heap \<Rightarrow> (error + 'b) \<times> heap" where
  "bind m f h = (case m h of (Inl e, h') \<Rightarrow> (Inl e, h') | (Inr x, h') \<Rightarrow> f x h')"

definition read :: "(heap \<Rightarrow> error + 'a) \<Rightarrow> heap \<Rightarrow> (error + 'a) \<times> heap" where
  "read f h = (f h, h)"

fun forEach :: "('a \<Rightarrow> heap \<Rightarrow> (error + unit) \<times> heap) \<Rightarrow> 'a list \<Rightarrow> heap
    \<Rightarrow> (error + unit) \<times> heap" where
  "forEach f [] h = (Inr (), h)"
| "forEach f (x # xs) h =
     (case f x h of (Inl e, h') \<Rightarrow> (Inl e, h') | (Inr u, h') \<Rightarrow> forEach f xs h')"

text \<open>\<open>Array.prototype.filter\<close> with a callback that may throw.\<close>

fun filterE :: "('a \<Rightarrow> error + bool) \<Rightarrow> 'a list \<Rightarrow> error + 'a list" where
  "filterE p [] = Inr []"
| "filterE p (x # xs) =
     (case p x of
        Inl e \<Rightarrow> Inl e
      | Inr b \<Rightarrow>
          (case filterE p xs of
             Inl e \<Rightarrow> Inl e
           | Inr ys \<Rightarrow> Inr (if b then x # ys else ys)))"

section \<open>Comparison of values\<close>

definition js_sub :: "jsnum \<Rightarrow> jsnum \<Rightarrow> jsnum" where
  "js_sub a b =
     (case (a, b) of
        (Fin x, Fin y) \<Rightarrow> Fin (x - y)
      | (Fin x, PosInf) \<Rightarrow> NegInf
      | (Fin x, NegInf) \<Rightarrow> PosInf
      | (PosInf, Fin y) \<Rightarrow> PosInf
      | (PosInf, NegInf) \<Rightarrow> PosInf
      | (NegInf, Fin y) \<Rightarrow> NegInf
      | (NegInf, PosInf) \<Rightarrow> NegInf
      | _ \<Rightarrow> NaN)"

text \<open>\<open>a < b\<close> on numbers; false when either is \<open>NaN\<close>.\<close>

definition num_lt :: "jsnum \<Rightarrow> jsnum \<Rightarrow> bool" where
  "num_lt a b =
     (case (a, b) of
        (Fin x, Fin y) \<Rightarrow> x < y
      | (Fin x, PosInf) \<Rightarrow> True
      | (NegInf, Fin y) \<Rightarrow> True
      | (NegInf, PosInf) \<Rightarrow> True
      | _ \<Rightarrow> False)"

definition num_le :: "jsnum \<Rightarrow> jsnum \<Rightarrow> bool" where
  "num_le a b = (a \<noteq> NaN \<and> b \<noteq> NaN \<and> (a = b \<or> num_lt a b))"

text \<open>Strings compare by code units.\<close>

fun str_lt :: "string \<Rightarrow> string \<Rightarrow> bool" where
  "str_lt [] [] = False"
| "str_lt [] (y # ys) = True"
| "str_lt (x # xs) [] = False"
| "str_lt (x # xs) (y # ys) =
     ((of_char x :: nat) < of_char y \<or> (x = y \<and> str_lt xs ys))"

text \<open>
  \<open>a < b\<close> and \<open>a <= b\<close> on values. The operands are first converted to primitive
  values: a date to its time value, \<open>Object.prototype\<close> to the string that its
  \<open>toString\<close> returns. Then two strings compare as strings, anything else as numbers.
\<close>

definition toPrimitive :: "jsval \<Rightarrow> jsval" where
  "toPrimitive v =
     (case v of
        JDate i t \<Rightarrow> JNumber t
      | JObjectPrototype \<Rightarrow> JString ''[object Object]''
      | _ \<Rightarrow> v)"

fun lt_primitive :: "jsval \<Rightarrow> jsval \<Rightarrow> bool" where
  "lt_primitive (JString s) (JString t) = str_lt s t"
| "lt_primitive a b = num_lt (Number a) (Number b)"

fun le_primitive :: "jsval \<Rightarrow> jsval \<Rightarrow> bool" where
  "le_primitive (JString s) (JString t) = (\<not> str_lt t s)"
| "le_primitive a b = num_le (Number a) (Number b)"

definition js_lt :: "jsval \<Rightarrow> jsval \<Rightarrow> bool" where
  "js_lt a b = lt_primitive (toPrimitive a) (toPrimitive b)"

definition js_le :: "jsval \<Rightarrow> jsval \<Rightarrow> bool" where
  "js_le a b = le_primitive (toPrimitive a) (toPrimitive b)"

text \<open>The equality of \<open>Array.prototype.includes\<close>: as \<open>===\<close>, but \<open>NaN\<close> equals itself.\<close>

definition sameValueZero :: "jsval \<Rightarrow> jsval \<Rightarrow> bool" where
  "sameValueZero a b = (strictEq a b \<or> (a = JNumber NaN \<and> b = JNumber NaN))"

text \<open>\<open>s.includes(t)\<close> on strings.\<close>

fun str_includes :: "string \<Rightarrow> string \<Rightarrow> bool" where
  "str_includes [] t = (t = [])"
| "str_includes (c # s) t = (take (length t) (c # s) = t \<or> str_includes s t)"

section \<open>DataTable: searching and selecting\<close>

text \<open>
  A callback of the caller is handed a \<open>DataRow\<close>, or the \<open>_values\<close> object of a row.
  It is modelled as a function of what it can read there: of a row, the objects
  \<open>_values\<close> and \<open>_originalValues\<close>, its state and the columns of its table; of a
  \<open>_values\<close> object, the object. It may throw.
\<close>

datatype arg =
    RowArg obj obj DataRowState "column list"
  | ValuesArg obj

type_synonym callback = "arg \<Rightarrow> error + bool"

definition rowArg :: "heap \<Rightarrow> nat \<Rightarrow> error + arg" where
  "rowArg h a =
     (case the_row h a of
        None \<Rightarrow> Inl InvalidReference
      | Some r \<Rightarrow>
          (case the_table h (r_table r) of
             None \<Rightarrow> Inl InvalidReference
           | Some T \<Rightarrow> Inr (RowArg (r_values r) (r_originalValues r) (r_rowState r) (t_columns T))))"

definition valuesArg :: "heap \<Rightarrow> nat \<Rightarrow> error + arg" where
  "valuesArg h a =
     (case the_row h a of None \<Rightarrow> Inl InvalidReference | Some r \<Rightarrow> Inr (ValuesArg (r_values r)))"

text \<open>The call of a callback on the argument, when there is one.\<close>

definition call :: "(arg \<Rightarrow> error + 'a) \<Rightarrow> error + arg \<Rightarrow> error + 'a" where
  "call f x = (case x of Inl e \<Rightarrow> Inl e | Inr y \<Rightarrow> f y)"

text \<open>
  \<open>x.get(name)\<close> inside a callback: a row answers as \<open>DataRow.get\<close> does; a \<open>_values\<close>
  object has no method \<open>get\<close>, and the call throws.
\<close>

definition arg_get :: "host \<Rightarrow> arg \<Rightarrow> string \<Rightarrow> error + jsval" where
  "arg_get H x n =
     (case x of
        RowArg vals orig st cols \<Rightarrow>
          if \<not> contains cols n then Inl NotFound else getProp H vals n
      | ValuesArg vals \<Rightarrow> Inl TypeError)"

text \<open>
  One entry of a criteria object: a regular expression (its \<open>test\<close> as a function of the
  string), the first operator found in the order the code looks for them, or a value to
  compare with \<open>===\<close>.
\<close>

datatype criterion =
    Pattern "string \<Rightarrow> bool"
  | Gt jsval
  | Gte jsval
  | Lt jsval
  | Lte jsval
  | Ne jsval
  | In "jsval list"
  | Contains string
  | Equals jsval

datatype criteria = Predicate callback | Criteria "(string \<times> criterion) list"

fun matches :: "host \<Rightarrow> jsval \<Rightarrow> criterion \<Rightarrow> bool" where
  "matches H rowValue (Pattern test) = test (String H rowValue)"
| "matches H rowValue (Gt v) = js_lt v rowValue"
| "matches H rowValue (Gte v) = js_le v rowValue"
| "matches H rowValue (Lt v) = js_lt rowValue v"
| "matches H rowValue (Lte v) = js_le rowValue v"
| "matches H rowValue (Ne v) = (\<not> strictEq rowValue v)"
| "matches H rowValue (In vs) = list_ex (\<lambda>v. sameValueZero v rowValue) vs"
| "matches H rowValue (Contains s) = str_includes (String H rowValue) s"
| "matches H rowValue (Equals v) = strictEq rowValue v"

text \<open>\<open>Object.entries(criteria).every(...)\<close>: the entries are tried in order, up to the
  first that fails; the read of the value of the row may throw.\<close>

fun matchesAll :: "host \<Rightarrow> (string \<times> criterion) list \<Rightarrow> row \<Rightarrow> error + bool" where
  "matchesAll H [] r = Inr True"
| "matchesAll H ((k, c) # cs) r =
     (case getProp H (r_values r) k of
        Inl e \<Rightarrow> Inl e
      | Inr rowValue \<Rightarrow> if matches H rowValue c then matchesAll H cs r else Inr False)"

definition matchesRow :: "host \<Rightarrow> (string \<times> criterion) list \<Rightarrow> heap \<Rightarrow> nat \<Rightarrow> error + bool" where
  "matchesRow H cs h a =
     (case the_row h a of None \<Rightarrow> Inl InvalidReference | Some r \<Rightarrow> matchesAll H cs r)"

text \<open>
  \<open>findRows\<close> as \<open>src/DataTable.js\<close> has it: a function is applied to the \<open>_values\<close>
  object of each row.
\<close>

definition findRows :: "host \<Rightarrow> nat \<Rightarrow> criteria \<Rightarrow> heap \<Rightarrow> error + nat list" where
  "findRows H t crit h =
     (case the_table h t of
        None \<Rightarrow> Inl InvalidReference
      | Some T \<Rightarrow>
          (case crit of
             Predicate f \<Rightarrow> filterE (\<lambda>a. call f (valuesArg h a)) (t_rows T)
           | Criteria cs \<Rightarrow> filterE (matchesRow H cs h) (t_rows T)))"

text \<open>
  \<open>findRows\<close> as the second \<open>DataTable\<close> source (the one with the schema operations) has
  it: a function is applied to the row itself.
\<close>

definition findRows_alt :: "host \<Rightarrow> nat \<Rightarrow> criteria \<Rightarrow> heap \<Rightarrow> error + nat list" where
  "findRows_alt H t crit h =
     (case the_table h t of
        None \<Rightarrow> Inl InvalidReference
      | Some T \<Rightarrow>
          (case crit of
             Predicate f \<Rightarrow> filterE (\<lambda>a. call f (rowArg h a)) (t_rows T)
           | Criteria cs \<Rightarrow> filterE (matchesRow H cs h) (t_rows T)))"

text \<open>\<open>findOne\<close>, over either \<open>findRows\<close>: the first match, or \<open>null\<close>.\<close>

definition findOne :: "(nat \<Rightarrow> criteria \<Rightarrow> heap \<Rightarrow> error + nat list) \<Rightarrow> nat \<Rightarrow> criteria \<Rightarrow> heap
    \<Rightarrow> error + nat option" where
  "findOne fr t crit h =
     (case fr t crit h of
        Inl e \<Rightarrow> Inl e
      | Inr results \<Rightarrow> Inr (if length results > 0 then Some (results ! 0) else None))"

text \<open>
  \<open>select\<close>: the rows whose \<open>_values\<close> object satisfies the callback, each mapped to its
  \<open>_values\<close> object. The \<open>_values\<close> object of a row is created with the row and never
  replaced, so a reference to it is the address of its row.
\<close>

datatype ref = ValuesRef nat

definition select :: "nat \<Rightarrow> callback \<Rightarrow> heap \<Rightarrow> error + ref list" where
  "select t filterExpression h =
     (case the_table h t of
        None \<Rightarrow> Inl InvalidReference
      | Some T \<Rightarrow>
          (case filterE (\<lambda>a. call filterExpression (valuesArg h a)) (t_rows T) of
             Inl e \<Rightarrow> Inl e
           | Inr as \<Rightarrow> Inr (map ValuesRef as)))"

text \<open>
  Reading and writing a property through a reference to a \<open>_values\<close> object, as the holder
  of a record returned by \<open>select\<close> does.
\<close>

definition read_record :: "host \<Rightarrow> ref \<Rightarrow> string \<Rightarrow> heap \<Rightarrow> error + jsval" where
  "read_record H x k h =
     (case x of
        ValuesRef a \<Rightarrow>
          (case the_row h a of None \<Rightarrow> Inl InvalidReference | Some r \<Rightarrow> getProp H (r_values r) k))"

definition write_record :: "ref \<Rightarrow> string \<Rightarrow> jsval \<Rightarrow> heap \<Rightarrow> heap" where
  "write_record x k v h =
     (case x of ValuesRef a \<Rightarrow> upd_row a (\<lambda>r. r\<lparr>r_values := setProp (r_values r) k v\<rparr>) h)"


section \<open>DataTable: sorting, clearing, cloning\<close>

text \<open>
  \<open>Array.prototype.sort\<close> with a comparator that may throw: a stable insertion sort. An
  element goes before the first one that the comparator puts strictly after it. The
  comparator is not called on an array of fewer than two elements.
\<close>

definition negative :: "jsnum \<Rightarrow> bool" where
  "negative c = (case c of Fin q \<Rightarrow> q < 0 | NegInf \<Rightarrow> True | _ \<Rightarrow> False)"

fun insertE :: "('a \<Rightarrow> 'a \<Rightarrow> error + jsnum) \<Rightarrow> 'a \<Rightarrow> 'a list \<Rightarrow> error + 'a list" where
  "insertE cmp x [] = Inr [x]"
| "insertE cmp x (y # ys) =
     (case cmp x y of
        Inl e \<Rightarrow> Inl e
      | Inr c \<Rightarrow>
          if negative c then Inr (x # y # ys)
          else (case insertE cmp x ys of Inl e \<Rightarrow> Inl e | Inr zs \<Rightarrow> Inr (y # zs)))"

fun sortE_into :: "('a \<Rightarrow> 'a \<Rightarrow> error + jsnum) \<Rightarrow> 'a list \<Rightarrow> 'a list \<Rightarrow> error + 'a list" where
  "sortE_into cmp acc [] = Inr acc"
| "sortE_into cmp acc (x # xs) =
     (case insertE cmp x acc of Inl e \<Rightarrow> Inl e | Inr acc' \<Rightarrow> sortE_into cmp acc' xs)"

definition sortE :: "('a \<Rightarrow> 'a \<Rightarrow> error + jsnum) \<Rightarrow> 'a list \<Rightarrow> error + 'a list" where
  "sortE cmp xs = sortE_into cmp [] xs"

text \<open>\<open>row.item(columnName)\<close> is \<open>row.get(columnName)\<close>.\<close>

definition DataRow_item :: "host \<Rightarrow> nat \<Rightarrow> string \<Rightarrow> heap \<Rightarrow> error + jsval" where
  "DataRow_item H a n h = DataRow_get H a (Name n) h"

definition isNullish :: "jsval \<Rightarrow> bool" where
  "isNullish v = (v = JNull \<or> v = JUndefined)"

text \<open>
  The comparator of \<open>sort(columnName, order)\<close>: the two values are read from the rows,
  then compared. \<open>cols\<close> are the columns of the table that is sorted. The dates that
  the comparison builds to subtract them are dropped at once; only their time values are
  used.
\<close>

definition compareColumnValues :: "host \<Rightarrow> column list option \<Rightarrow> string \<Rightarrow> string \<Rightarrow> jsval \<Rightarrow> jsval
    \<Rightarrow> error + jsnum" where
  "compareColumnValues H cols columnName' order' valueA valueB =
     (if strictEq valueA valueB then Inr (Fin 0)
      else if isNullish valueA then Inr (Fin 1)
      else if isNullish valueB then Inr (Fin (- 1))
      else
        (case cols of
           None \<Rightarrow> Inl InvalidReference
         | Some cs \<Rightarrow>
             (case columns_get cs columnName' of
                None \<Rightarrow> Inl TypeError
              | Some c \<Rightarrow>
                  (let ty = (case dataType c of None \<Rightarrow> [] | Some dt \<Rightarrow> toLowerCase dt);
                       comparison =
                         (if ty = ''number'' then js_sub (Number valueA) (Number valueB)
                          else if ty = ''date''
                            then js_sub (DateValue H valueA) (DateValue H valueB)
                          else localeCompare H (String H valueA) (String H valueB))
                   in Inr (if order' = ''asc'' then comparison else negate comparison)))))"

definition columnComparer :: "host \<Rightarrow> nat \<Rightarrow> string \<Rightarrow> string \<Rightarrow> heap \<Rightarrow> nat \<Rightarrow> nat
    \<Rightarrow> error + jsnum" where
  "columnComparer H t columnName' order' h a b =
     (case DataRow_item H a columnName' h of
        Inl e \<Rightarrow> Inl e
      | Inr valueA \<Rightarrow>
          (case DataRow_item H b columnName' h of
             Inl e \<Rightarrow> Inl e
           | Inr valueB \<Rightarrow>
               compareColumnValues H (map_option t_columns (the_table h t)) columnName' order'
                 valueA valueB))"

definition set_rows :: "nat \<Rightarrow> nat list \<Rightarrow> heap \<Rightarrow> heap" where
  "set_rows t as h = upd_table t (\<lambda>T. T\<lparr>t_rows := as\<rparr>) h"

text \<open>\<open>sort(columnName, order)\<close>: the array of rows is sorted in place.\<close>

definition sort_column :: "host \<Rightarrow> nat \<Rightarrow> string \<Rightarrow> string \<Rightarrow> heap \<Rightarrow> (error + unit) \<times> heap" where
  "sort_column H t columnName' order' h =
     (case the_table h t of
        None \<Rightarrow> (Inl InvalidReference, h)
      | Some T \<Rightarrow>
          (case sortE (columnComparer H t columnName' order' h) (t_rows T) of
             Inl e \<Rightarrow> (Inl e, h)
           | Inr as \<Rightarrow> (Inr (), set_rows t as h)))"

text \<open>
  \<open>sortBy(expression)\<close>: the expression is a function of the caller, applied to a row.
\<close>

type_synonym expression = "arg \<Rightarrow> error + jsval"

definition compareKeys :: "jsval \<Rightarrow> jsval \<Rightarrow> jsnum" where
  "compareKeys valueA valueB =
     (if strictEq valueA valueB then Fin 0
      else if valueA = JNull then Fin 1
      else if valueB = JNull then Fin (- 1)
      else if js_lt valueA valueB then Fin (- 1) else Fin 1)"

definition expressionComparer :: "expression \<Rightarrow> heap \<Rightarrow> nat \<Rightarrow> nat \<Rightarrow> error + jsnum" where
  "expressionComparer expr h a b =
     (case call expr (rowArg h a) of
        Inl e \<Rightarrow> Inl e
      | Inr valueA \<Rightarrow>
          (case call expr (rowArg h b) of
             Inl e \<Rightarrow> Inl e
           | Inr valueB \<Rightarrow> Inr (compareKeys valueA valueB)))"

definition sortBy :: "nat \<Rightarrow> expression \<Rightarrow> heap \<Rightarrow> (error + unit) \<times> heap" where
  "sortBy t expr h =
     (case the_table h t of
        None \<Rightarrow> (Inl InvalidReference, h)
      | Some T \<Rightarrow>
          (case sortE (expressionComparer expr h) (t_rows T) of
             Inl e \<Rightarrow> (Inl e, h)
           | Inr as \<Rightarrow> (Inr (), set_rows t as h)))"

definition clear :: "nat \<Rightarrow> heap \<Rightarrow> (error + unit) \<times> heap" where
  "clear t h = (Inr (), DataRowCollection_clear t h)"

text \<open>The copy of a column that \<open>clone\<close> builds: a new column, then four more fields.\<close>

definition cloneColumn :: "column \<Rightarrow> heap \<Rightarrow> column \<times> heap" where
  "cloneColumn col h =
     (let (newColumn, h1) = DataColumn (columnName col) (dataType col) (allowNull col)
                              (defaultValue col) h
      in (newColumn\<lparr>caption := caption col, expression := expression col,
                     readOnly := readOnly col, unique := unique col\<rparr>, h1))"

text \<open>The copy of one row that \<open>clone\<close> adds to the new table \<open>n\<close>.\<close>

definition cloneRow :: "nat \<Rightarrow> nat \<Rightarrow> heap \<Rightarrow> (error + unit) \<times> heap" where
  "cloneRow n a =
     bind (read (\<lambda>h. case the_row h a of None \<Rightarrow> Inl InvalidReference | Some r \<Rightarrow> Inr r))
       (\<lambda>r. bind (newRow n)
         (\<lambda>b h. bind (DataRowCollection_add n (RowInstance b)) (\<lambda>x h. (Inr (), h))
                  (upd_row b
                     (\<lambda>nr. nr\<lparr>r_values := Object_assign (r_values nr) (r_values r),
                              r_originalValues :=
                                Object_assign (r_originalValues nr) (r_originalValues r),
                              r_rowState := r_rowState r\<rparr>)
                     h)))"

definition clone :: "nat \<Rightarrow> heap \<Rightarrow> (error + nat) \<times> heap" where
  "clone t h =
     (case the_table h t of
        None \<Rightarrow> (Inl InvalidReference, h)
      | Some T \<Rightarrow>
          (let (n, h1) = alloc_table (DataTable (tableName T)) h
           in bind (forEach (\<lambda>col h. let (newColumn, h') = cloneColumn col h
                                      in bind (DataColumnCollection_add n newColumn)
                                           (\<lambda>c h. (Inr (), h)) h')
                      (t_columns T))
                (\<lambda>u. bind (forEach (cloneRow n) (t_rows T))
                   (\<lambda>u h. (Inr n, upd_table n (\<lambda>N. N\<lparr>caseSensitive := caseSensitive T\<rparr>) h)))
                h1))"

section \<open>DataRelation and DataSet\<close>

text \<open>
  A relation keeps its two columns and, read from them when it is constructed, the
  tables they belong to (\<open>None\<close> for a column that is in no table).
\<close>

record relation =
  relationName :: string
  parentColumn :: column
  childColumn :: column
  parentTable :: "nat option"
  childTable :: "nat option"

record dataset =
  dataSetName :: string
  tables :: "(string \<times> nat) list"
  relations :: "relation list"

text \<open>\<open>Array.prototype.findIndex\<close>: the first index, or \<open>-1\<close>.\<close>

fun findIndex :: "('a \<Rightarrow> bool) \<Rightarrow> 'a list \<Rightarrow> int" where
  "findIndex p [] = - 1"
| "findIndex p (x # xs) =
     (if p x then 0 else (let i = findIndex p xs in if i = - 1 then - 1 else i + 1))"

definition removeRelation :: "string \<Rightarrow> dataset \<Rightarrow> dataset" where
  "removeRelation name ds =
     (let index = findIndex (\<lambda>rel. relationName rel = name) (relations ds)
      in if index \<noteq> - 1
         then ds\<lparr>relations := take (nat index) (relations ds)
                               @ drop (Suc (nat index)) (relations ds)\<rparr>
         else ds)"

text \<open>
  The two lookups. \<open>fr\<close> is the \<open>findRows\<close> of the \<open>DataTable\<close> module that \<open>DataSet\<close>
  requires. The callback is \<open>row => row.get(columnName) === value\<close>.
\<close>

definition relationCallback :: "host \<Rightarrow> string \<Rightarrow> jsval \<Rightarrow> callback" where
  "relationCallback H columnName' value x =
     (case arg_get H x columnName' of Inl e \<Rightarrow> Inl e | Inr v \<Rightarrow> Inr (strictEq v value))"

definition getChildRows :: "host \<Rightarrow> (nat \<Rightarrow> criteria \<Rightarrow> heap \<Rightarrow> error + nat list) \<Rightarrow> dataset
    \<Rightarrow> nat \<Rightarrow> string \<Rightarrow> heap \<Rightarrow> error + nat list" where
  "getChildRows H fr ds parentRow name h =
     (case find (\<lambda>rel. relationName rel = name) (relations ds) of
        None \<Rightarrow> Inl NotFound
      | Some rel \<Rightarrow>
          (case DataRow_get H parentRow (Name (columnName (parentColumn rel))) h of
             Inl e \<Rightarrow> Inl e
           | Inr parentValue \<Rightarrow>
               (case childTable rel of
                  None \<Rightarrow> Inl TypeError
                | Some ct \<Rightarrow>
                    fr ct (Predicate (relationCallback H (columnName (childColumn rel))
                                        parentValue)) h)))"

definition getParentRow :: "host \<Rightarrow> (nat \<Rightarrow> criteria \<Rightarrow> heap \<Rightarrow> error + nat list) \<Rightarrow> dataset
    \<Rightarrow> nat \<Rightarrow> string \<Rightarrow> heap \<Rightarrow> error + nat option" where
  "getParentRow H fr ds childRow name h =
     (case find (\<lambda>rel. relationName rel = name) (relations ds) of
        None \<Rightarrow> Inl NotFound
      | Some rel \<Rightarrow>
          (case DataRow_get H childRow (Name (columnName (childColumn rel))) h of
             Inl e \<Rightarrow> Inl e
           | Inr childValue \<Rightarrow>
               (case parentTable rel of
                  None \<Rightarrow> Inl TypeError
                | Some pt \<Rightarrow>
                    findOne fr pt (Predicate (relationCallback H (columnName (parentColumn rel))
                                               childValue)) h)))"

section \<open>DataView\<close>

datatype rowFilter = FilterFn callback | FilterCriteria "(string \<times> criterion) list"

datatype sortSpec = SortFn expression | SortColumn string

record view =
  v_table :: nat
  v_rowFilter :: "rowFilter option"
  v_sort :: "sortSpec option"
  v_sortOrder :: string

text \<open>\<open>if (this._sort)\<close>: \<open>null\<close> and the empty string are not a sort.\<close>

definition sortIsSet :: "view \<Rightarrow> bool" where
  "sortIsSet v = (case v_sort v of None \<Rightarrow> False | Some (SortColumn s) \<Rightarrow> s \<noteq> [] | Some (SortFn f) \<Rightarrow> True)"

text \<open>The copy of one row that \<open>_cloneTableWithRows\<close> adds to the temporary table.\<close>

definition copyRow :: "host \<Rightarrow> column list \<Rightarrow> nat \<Rightarrow> nat \<Rightarrow> heap \<Rightarrow> (error + unit) \<times> heap" where
  "copyRow H cols tmp a =
     bind (newRow tmp)
       (\<lambda>b. bind (forEach (\<lambda>col. bind (read (DataRow_get H a (Name (columnName col))))
                                   (\<lambda>v. DataRow_set H b (columnName col) v))
                     cols)
          (\<lambda>u. bind (DataRowCollection_add tmp (RowInstance b)) (\<lambda>x h. (Inr (), h))))"

definition cloneTableWithRows :: "host \<Rightarrow> view \<Rightarrow> nat list \<Rightarrow> heap \<Rightarrow> (error + nat) \<times> heap" where
  "cloneTableWithRows H v rows' =
     bind (clone (v_table v))
       (\<lambda>tmp. bind (clear tmp)
          (\<lambda>u. bind (read (\<lambda>h. case the_table h (v_table v) of
                                 None \<Rightarrow> Inl InvalidReference
                               | Some T \<Rightarrow> Inr (t_columns T)))
             (\<lambda>cols. bind (forEach (copyRow H cols tmp) rows')
                (\<lambda>u h. (Inr tmp, h)))))"

definition getRows :: "host \<Rightarrow> view \<Rightarrow> heap \<Rightarrow> (error + nat list) \<times> heap" where
  "getRows H v =
     bind (read (\<lambda>h. case the_table h (v_table v) of
                       None \<Rightarrow> Inl InvalidReference
                     | Some T \<Rightarrow>
                         (case v_rowFilter v of
                            None \<Rightarrow> Inr (t_rows T)
                          | Some (FilterFn f) \<Rightarrow> filterE (\<lambda>a. call f (rowArg h a)) (t_rows T)
                          | Some (FilterCriteria cs) \<Rightarrow> findRows H (v_table v) (Criteria cs) h)))
       (\<lambda>rows'.
          if sortIsSet v then
            bind (cloneTableWithRows H v rows')
              (\<lambda>sortedTable.
                 bind (case v_sort v of
                         Some (SortFn f) \<Rightarrow> sortBy sortedTable f
                       | Some (SortColumn s) \<Rightarrow> sort_column H sortedTable s (v_sortOrder v)
                       | None \<Rightarrow> (\<lambda>h. (Inr (), h)))
                   (\<lambda>u. read (\<lambda>h. case the_table h sortedTable of
                                    None \<Rightarrow> Inl InvalidReference
                                  | Some S \<Rightarrow> Inr (t_rows S))))
          else (\<lambda>h. (Inr rows', h)))"


section \<open>Changing the flags of columns\<close>

text \<open>Changing the \<open>readOnly\<close> and \<open>unique\<close> flags of the columns of a table.\<close>

definition set_flags :: "nat \<Rightarrow> (column \<Rightarrow> bool) \<Rightarrow> (column \<Rightarrow> bool) \<Rightarrow> heap \<Rightarrow> heap" where
  "set_flags t ro un h =
     upd_table t
       (\<lambda>T. T\<lparr>t_columns := map (\<lambda>c. c\<lparr>readOnly := ro c, unique := un c\<rparr>) (t_columns T)\<rparr>) h"


section \<open>Example objects\<close>

text \<open>A plain object with the given properties and the prototype it is created with.\<close>

definition plainObject :: "(string \<rightharpoonup> jsval) \<Rightarrow> obj" where
  "plainObject m = \<lparr>props = m, prototype = JObjectPrototype\<rparr>"

text \<open>
  A host, and a store with one table \<open>T\<close> that has one column \<open>n\<close> of type number that
  does not allow null, and one row.
\<close>

definition ex_host :: host where
  "ex_host = \<lparr>Number_toString = (\<lambda>q. ''''), Date_parse = (\<lambda>s. NaN),
              Date_toString = (\<lambda>t. ''''), localeCompare = (\<lambda>a b. Fin 0),
              Date_prototype_has = (\<lambda>k. k = ''getTime'')\<rparr>"

definition ex_number_column :: column where
  "ex_number_column = newColumn 0 ''n'' (Some ''number'') False JNull"

definition ex_table :: table where
  "ex_table = \<lparr>tableName = ''T'', t_rows = [0], t_columns = [ex_number_column],
               caseSensitive = False\<rparr>"

definition ex_heap :: heap where
  "ex_heap = \<lparr>h_tables = [ex_table], h_rows = [DataRow 0 ex_table], h_dates = 0,
              h_columns = 1, h_ordinal = (\<lambda>i. - 1)(0 := 0), h_columnTable = [0 \<mapsto> 0]\<rparr>"

text \<open>A data set with one relation, from the column \<open>n\<close> of \<open>T\<close> to itself.\<close>

definition ex_relation :: relation where
  "ex_relation = \<lparr>relationName = ''R'', parentColumn = ex_number_column,
                  childColumn = ex_number_column, parentTable = Some 0, childTable = Some 0\<rparr>"

definition ex_dataset :: dataset where
  "ex_dataset = \<lparr>dataSetName = ''D'', tables = [(''T'', 0)], relations = [ex_relation]\<rparr>"

text \<open>
  A parent table \<open>P\<close> with the column \<open>id\<close> and one row, \<open>id = 7\<close>; a child table \<open>C\<close>
  with the column \<open>pid\<close> and two rows, \<open>pid = 7\<close> and \<open>pid = 8\<close>; and the data set with
  the relation \<open>R\<close> from \<open>P.id\<close> to \<open>C.pid\<close>.
\<close>

definition ex_id :: column where
  "ex_id = newColumn 0 ''id'' (Some ''number'') True JNull"

definition ex_pid :: column where
  "ex_pid = newColumn 1 ''pid'' (Some ''number'') True JNull"

definition ex_P :: table where
  "ex_P = \<lparr>tableName = ''P'', t_rows = [0], t_columns = [ex_id], caseSensitive = False\<rparr>"

definition ex_C :: table where
  "ex_C = \<lparr>tableName = ''C'', t_rows = [1, 2], t_columns = [ex_pid], caseSensitive = False\<rparr>"

definition ex_family_heap :: heap where
  "ex_family_heap =
     \<lparr>h_tables = [ex_P, ex_C],
      h_rows = [\<lparr>r_table = 0, r_values = plainObject [''id'' \<mapsto> JNumber (Fin 7)],
                 r_originalValues = emptyObject, r_rowState = ADDED\<rparr>,
                \<lparr>r_table = 1, r_values = plainObject [''pid'' \<mapsto> JNumber (Fin 7)],
                 r_originalValues = emptyObject, r_rowState = ADDED\<rparr>,
                \<lparr>r_table = 1, r_values = plainObject [''pid'' \<mapsto> JNumber (Fin 8)],
                 r_originalValues = emptyObject, r_rowState = ADDED\<rparr>],
      h_dates = 0, h_columns = 2, h_ordinal = (\<lambda>i. 0),
      h_columnTable = [0 \<mapsto> 0, 1 \<mapsto> 1]\<rparr>"

definition ex_family :: dataset where
  "ex_family =
     \<lparr>dataSetName = ''family'', tables = [(''P'', 0), (''C'', 1)],
      relations = [\<lparr>relationName = ''R'', parentColumn = ex_id, childColumn = ex_pid,
                    parentTable = Some 0, childTable = Some 1\<rparr>]\<rparr>"








section \<open>Properties\<close>

subsection \<open>The store\<close>

lemma the_row_upd_row:
  "the_row h a = Some r \<Longrightarrow> the_row (upd_row a f h) a = Some (f r)"
  by (auto simp: the_row_def upd_row_def split: if_splits)

lemma the_row_upd_row_eq:
  "the_row (upd_row a f h) b = (if b = a then map_option f (the_row h b) else the_row h b)"
  by (auto simp: the_row_def upd_row_def)

lemma the_table_upd_row [simp]: "the_table (upd_row a f h) t = the_table h t"
  by (simp add: the_table_def upd_row_def)

lemma the_row_upd_table [simp]: "the_row (upd_table t f h) a = the_row h a"
  by (simp add: the_row_def upd_table_def)

lemma the_table_upd_table:
  "the_table h t = Some T \<Longrightarrow> the_table (upd_table t f h) t = Some (f T)"
  by (auto simp: the_table_def upd_table_def split: if_splits)

lemma the_table_upd_table_other:
  "s \<noteq> t \<Longrightarrow> the_table (upd_table t f h) s = the_table h s"
  by (auto simp: the_table_def upd_table_def)

lemma the_table_fold_upd_row [simp]:
  "the_table (fold (\<lambda>a. upd_row a (f a)) as h) t = the_table h t"
  by (induction as arbitrary: h) simp_all

lemma length_rows_upd_row [simp]: "length (h_rows (upd_row a f h)) = length (h_rows h)"
  by (simp add: upd_row_def)

lemma the_row_upd_row_other: "b \<noteq> a \<Longrightarrow> the_row (upd_row a f h) b = the_row h b"
  by (simp add: the_row_def upd_row_def)

lemma the_row_fold_upd_row:
  assumes "\<And>r. f (f r) = f r"
  shows "the_row (fold (\<lambda>a. upd_row a f) as h) b =
           (if b \<in> set as then map_option f (the_row h b) else the_row h b)"
proof (induction as arbitrary: h)
  case Nil
  then show ?case by simp
next
  case (Cons a as)
  have idem: "map_option f (map_option f x) = map_option f x" for x
    using assms by (cases x) simp_all
  show ?case
    by (simp add: Cons.IH the_row_upd_row_eq idem)
qed

lemma the_table_dates [simp]: "the_table (h\<lparr>h_dates := d\<rparr>) t = the_table h t"
  by (simp add: the_table_def)

lemma the_row_dates [simp]: "the_row (h\<lparr>h_dates := d\<rparr>) a = the_row h a"
  by (simp add: the_row_def)

lemma h_dates_upd_table [simp]: "h_dates (upd_table t f h) = h_dates h"
  by (simp add: upd_table_def)

lemma the_row_alloc: "the_row (h\<lparr>h_rows := h_rows h @ [r]\<rparr>) (length (h_rows h)) = Some r"
  by (simp add: the_row_def)

lemma the_table_alloc_row [simp]: "the_table (h\<lparr>h_rows := rs\<rparr>) t = the_table h t"
  by (simp add: the_table_def)

lemma the_row_push_row [simp]: "the_row (push_row t a h) b = the_row h b"
  by (simp add: push_row_def)

lemma tables_update_same: "the_table g n = Some N \<Longrightarrow> (h_tables g)[n := N] = h_tables g"
  by (auto simp: the_table_def split: if_splits)

lemma the_table_columns [simp]:
  "the_table (h\<lparr>h_columns := x\<rparr>) t = the_table h t"
  "the_table (h\<lparr>h_ordinal := y\<rparr>) t = the_table h t"
  "the_table (h\<lparr>h_columnTable := z\<rparr>) t = the_table h t"
  by (simp_all add: the_table_def)

lemma the_row_columns [simp]:
  "the_row (h\<lparr>h_columns := x\<rparr>) a = the_row h a"
  "the_row (h\<lparr>h_ordinal := y\<rparr>) a = the_row h a"
  "the_row (h\<lparr>h_columnTable := z\<rparr>) a = the_row h a"
  by (simp_all add: the_row_def)

subsection \<open>Plain objects\<close>

lemma props_setProp:
  "k \<noteq> ''__proto__'' \<Longrightarrow> props (setProp ob k v) = (props ob)(k \<mapsto> v)"
  by (simp add: setProp_def)

lemma prototype_setProp:
  "k \<noteq> ''__proto__'' \<Longrightarrow> prototype (setProp ob k v) = prototype ob"
  by (simp add: setProp_def)

lemma setProp_plain:
  "k \<noteq> ''__proto__'' \<Longrightarrow> setProp ob k v = ob\<lparr>props := (props ob)(k \<mapsto> v)\<rparr>"
  by (simp add: setProp_def)

lemma getProp_own: "props ob k = Some v \<Longrightarrow> getProp H ob k = Inr v"
  by (simp add: getProp_def)

lemma getProp_setProp:
  "k \<noteq> ''__proto__'' \<Longrightarrow> getProp H (setProp ob k v) k = Inr v"
  by (simp add: getProp_def setProp_def)

lemma props_deleteProp [simp]: "props (deleteProp ob k) = (props ob)(k := None)"
  by (simp add: deleteProp_def)

lemma prototype_deleteProp [simp]: "prototype (deleteProp ob k) = prototype ob"
  by (simp add: deleteProp_def)

lemma props_emptyObject [simp]: "props emptyObject = Map.empty"
  by (simp add: emptyObject_def)

lemma prototype_emptyObject [simp]: "prototype emptyObject = JObjectPrototype"
  by (simp add: emptyObject_def)

lemma props_plainObject [simp]: "props (plainObject m) = m"
  by (simp add: plainObject_def)

lemma prototype_plainObject [simp]: "prototype (plainObject m) = JObjectPrototype"
  by (simp add: plainObject_def)

lemma hasOwnProperty_Inr:
  "''hasOwnProperty'' \<notin> dom (props ob) \<Longrightarrow> prototype ob \<noteq> JNull \<Longrightarrow>
     hasOwnProperty ob k = Inr (k \<in> dom (props ob))"
  by (simp add: hasOwnProperty_def)

subsection \<open>Columns\<close>

lemma columns_get_contains: "columns_get cols n = Some c \<Longrightarrow> contains cols n"
  by (auto simp: columns_get_def contains_def find_Some_iff)

lemma columns_get_name: "columns_get cols n = Some c \<Longrightarrow> columnName c = n"
  by (auto simp: columns_get_def find_Some_iff)


lemma names_filter:
  "map columnName (filter (\<lambda>c. columnName c \<noteq> name) cs) = filter (\<lambda>n. n \<noteq> name) (map columnName cs)"
  by (induction cs) simp_all

lemma newRow_result:
  assumes "the_table h t = Some T"
  shows "newRow t h = (Inr (length (h_rows h)), h\<lparr>h_rows := h_rows h @ [DataRow t T]\<rparr>)"
  using assms by (simp add: newRow_def alloc_row_def)

subsection \<open>Conversions\<close>

lemma StringToNumber_42: "StringToNumber ''42'' = Fin 42"
  by code_simp

lemma toLowerCase_number: "toLowerCase ''number'' = ''number''"
  by code_simp


lemma convertValue_flags [simp]:
  "convertValue H (c\<lparr>readOnly := x, unique := y\<rparr>) v d = convertValue H c v d"
  by (simp add: convertValue_def)


subsection \<open>The example store\<close>

lemma ex_row0: "the_row ex_heap 0 = Some (DataRow 0 ex_table)"
  by (simp add: the_row_def ex_heap_def)

lemma ex_table0: "the_table ex_heap 0 = Some ex_table"
  by (simp add: the_table_def ex_heap_def)

lemma ex_get_n: "columns_get (t_columns ex_table) ''n'' = Some ex_number_column"
  by (simp add: columns_get_def ex_table_def ex_number_column_def newColumn_def)

lemma ex_row0_values: "r_values (DataRow 0 ex_table) = plainObject [''n'' \<mapsto> JNull]"
  by (simp add: DataRow_def ex_table_def ex_number_column_def newColumn_def setProp_def
      emptyObject_def plainObject_def)

subsection \<open>Filtering\<close>

lemma filterE_Inr: "filterE p xs = Inr ys \<Longrightarrow> ys = filter (\<lambda>x. p x = Inr True) xs"
  by (induction xs arbitrary: ys) (auto split: sum.splits if_splits)

lemma filterE_all_Inr:
  "\<forall>x \<in> set xs. \<exists>b. p x = Inr b \<Longrightarrow> filterE p xs = Inr (filter (\<lambda>x. p x = Inr True) xs)"
  by (induction xs) (auto split: sum.splits)

subsection \<open>The example of a parent and a child table\<close>

lemma ex_family_tables:
  "the_table ex_family_heap 0 = Some ex_P" "the_table ex_family_heap (Suc 0) = Some ex_C"
  by (simp_all add: the_table_def ex_family_heap_def)

lemma ex_family_rows:
  "the_row ex_family_heap 0 = Some \<lparr>r_table = 0, r_values = plainObject [''id'' \<mapsto> JNumber (Fin 7)],
                 r_originalValues = emptyObject, r_rowState = ADDED\<rparr>"
  "the_row ex_family_heap (Suc 0) = Some \<lparr>r_table = Suc 0, r_values = plainObject [''pid'' \<mapsto> JNumber (Fin 7)],
                 r_originalValues = emptyObject, r_rowState = ADDED\<rparr>"
  "the_row ex_family_heap 2 = Some \<lparr>r_table = Suc 0, r_values = plainObject [''pid'' \<mapsto> JNumber (Fin 8)],
                 r_originalValues = emptyObject, r_rowState = ADDED\<rparr>"
  by (simp_all add: the_row_def ex_family_heap_def)

lemma ex_family_names: "columnName ex_id = ''id''" "columnName ex_pid = ''pid''"
  by (simp_all add: ex_id_def ex_pid_def newColumn_def)

lemma ex_family_contains: "contains (t_columns ex_P) ''id''" "contains (t_columns ex_C) ''pid''"
  by (simp_all add: contains_def ex_P_def ex_C_def ex_family_names)

lemma ex_family_get:
  "DataRow_get H 0 (Name ''id'') ex_family_heap = Inr (JNumber (Fin 7))"
  "DataRow_get H (Suc 0) (Name ''pid'') ex_family_heap = Inr (JNumber (Fin 7))"
  "DataRow_get H 2 (Name ''pid'') ex_family_heap = Inr (JNumber (Fin 8))"
  by (simp_all add: DataRow_get_def ex_family_rows ex_family_tables ex_family_contains getProp_def)

lemma ex_family_args:
  "rowArg ex_family_heap 0
     = Inr (RowArg (plainObject [''id'' \<mapsto> JNumber (Fin 7)]) emptyObject ADDED (t_columns ex_P))"
  "rowArg ex_family_heap (Suc 0)
     = Inr (RowArg (plainObject [''pid'' \<mapsto> JNumber (Fin 7)]) emptyObject ADDED (t_columns ex_C))"
  "rowArg ex_family_heap 2
     = Inr (RowArg (plainObject [''pid'' \<mapsto> JNumber (Fin 8)]) emptyObject ADDED (t_columns ex_C))"
  "valuesArg ex_family_heap 0 = Inr (ValuesArg (plainObject [''id'' \<mapsto> JNumber (Fin 7)]))"
  "valuesArg ex_family_heap (Suc 0) = Inr (ValuesArg (plainObject [''pid'' \<mapsto> JNumber (Fin 7)]))"
  by (simp_all add: rowArg_def valuesArg_def ex_family_rows ex_family_tables)

subsection \<open>The outcome of \<open>set\<close>\<close>

lemma DataRow_set_Inr:
  assumes "DataRow_set H a n v h = (Inr u, h')"
  shows "\<exists>r T c w d r'. the_row h a = Some r \<and> the_table h (r_table r) = Some T \<and>
           columns_get (t_columns T) n = Some c \<and> \<not> (v = JNull \<and> \<not> allowNull c) \<and>
           convertValue H c v (h_dates h) = Inr (w, d) \<and> written H n w r = Inr r' \<and>
           h' = upd_row a (\<lambda>r. r') (h\<lparr>h_dates := d\<rparr>)"
  using assms
  by (auto simp: DataRow_set_def split: option.splits if_splits sum.splits)

lemma DataRow_set_ok:
  assumes "the_row h a = Some r" and "the_table h (r_table r) = Some T"
    and "columns_get (t_columns T) n = Some c" and "\<not> (v = JNull \<and> \<not> allowNull c)"
    and "convertValue H c v (h_dates h) = Inr (w, d)" and "written H n w r = Inr r'"
  shows "DataRow_set H a n v h = (Inr (), upd_row a (\<lambda>r. r') (h\<lparr>h_dates := d\<rparr>))"
  using assms columns_get_contains [OF assms(3)]
  by (auto simp: DataRow_set_def)

lemma written_Inr:
  assumes "written H n w r = Inr r'"
  shows "r_table r' = r_table r \<and> r_values r' = setProp (r_values r) n w \<and> r_rowState r' = MODIFIED"
  using assms by (auto simp: written_def split: sum.splits if_splits)


subsection \<open>The row of the example store\<close>

lemma ex_table_of_row0: "the_table ex_heap (r_table (DataRow 0 ex_table)) = Some ex_table"
  by (simp add: DataRow_def ex_table0)

lemma ex_contains_n: "contains (t_columns ex_table) ''n''"
  using ex_get_n by (rule columns_get_contains)

lemma ex_select: "select 0 (\<lambda>x. Inr True) ex_heap = Inr [ValuesRef 0]"
  by (simp add: select_def ex_table0) (simp add: ex_table_def call_def valuesArg_def ex_row0)

lemma ex_convert_number:
  "Number v \<noteq> NaN \<Longrightarrow> v \<noteq> JNull \<Longrightarrow>
   convertValue H ex_number_column v d = Inr (JNumber (Number v), d)"
  by (simp add: convertValue_def ex_number_column_def newColumn_def toLowerCase_number isNaN_def)

lemma ex_written:
  "written H ''n'' w (DataRow 0 ex_table) =
     Inr \<lparr>r_table = 0, r_values = plainObject [''n'' \<mapsto> w],
          r_originalValues = plainObject [''n'' \<mapsto> JNull], r_rowState = MODIFIED\<rparr>"
  by (simp add: written_def hasOwnProperty_def ex_row0_values getProp_def setProp_def)
     (simp add: DataRow_def emptyObject_def plainObject_def)

lemma ex_set:
  assumes "Number v \<noteq> NaN" and "v \<noteq> JNull"
  shows "DataRow_set H 0 ''n'' v ex_heap =
     (Inr (), upd_row 0 (\<lambda>r. \<lparr>r_table = 0, r_values = plainObject [''n'' \<mapsto> JNumber (Number v)],
          r_originalValues = plainObject [''n'' \<mapsto> JNull], r_rowState = MODIFIED\<rparr>)
        (ex_heap\<lparr>h_dates := h_dates ex_heap\<rparr>))"
  by (rule DataRow_set_ok [OF ex_row0 ex_table_of_row0 ex_get_n _ ex_convert_number [OF assms] ex_written])
     (simp add: assms)


lemma same_dates [simp]: "h\<lparr>h_dates := h_dates h\<rparr> = h"
  by simp


subsection \<open>The stores with the columns named \<open>hasOwnProperty\<close> and \<open>__proto__\<close>\<close>












subsection \<open>When \<open>set\<close> fails, and the flags of the columns\<close>




lemma written_flags_free:
  "written H n w r = Inl e \<Longrightarrow> written H n w' r = Inl e"
  by (auto simp: written_def split: sum.splits if_splits)



lemma the_row_set_flags [simp]: "the_row (set_flags t ro un h) a = the_row h a"
  by (simp add: set_flags_def)

lemma h_dates_set_flags [simp]: "h_dates (set_flags t ro un h) = h_dates h"
  by (simp add: set_flags_def)


lemma contains_map_flags [simp]:
  "contains (map (\<lambda>c. c\<lparr>readOnly := ro c, unique := un c\<rparr>) cols) n = contains cols n"
  by (simp add: contains_def comp_def)


subsection \<open>The properties of a new row\<close>

lemma props_setProp_other:
  "k \<noteq> ''__proto__'' \<Longrightarrow> props (setProp ob k' v) k = (if k' = k then Some v else props ob k)"
  by (auto simp: setProp_def)

lemma fold_assign_props:
  assumes "k \<noteq> ''__proto__''"
  shows "props (fold (\<lambda>(k, v) ob. if P k then setProp ob k v else ob) kvs ob) k =
           (if P k then (case map_of (rev kvs) k of Some v \<Rightarrow> Some v | None \<Rightarrow> props ob k)
            else props ob k)"
proof (induction kvs arbitrary: ob)
  case Nil
  then show ?case by simp
next
  case (Cons kv kvs)
  obtain k' v' where kv: "kv = (k', v')" by (cases kv)
  show ?case
    using assms
    by (auto simp: kv Cons.IH map_add_def props_setProp_other split: option.splits)
qed

lemma fold_defaults_props:
  assumes "k \<noteq> ''__proto__''"
  shows "props (fold (\<lambda>c ob. setProp ob (columnName c) (defaultValue c)) cs ob) k =
           (case map_of (rev (map (\<lambda>c. (columnName c, defaultValue c)) cs)) k of
              Some v \<Rightarrow> Some v | None \<Rightarrow> props ob k)"
proof (induction cs arbitrary: ob)
  case Nil
  then show ?case by simp
next
  case (Cons c cs)
  show ?case
    using assms
    by (auto simp: Cons.IH map_add_def props_setProp_other split: option.splits)
qed

lemma DataRow_props:
  "k \<noteq> ''__proto__'' \<Longrightarrow>
     props (r_values (DataRow t T)) k
       = map_of (rev (map (\<lambda>c. (columnName c, defaultValue c)) (t_columns T))) k"
  by (simp add: DataRow_def fold_defaults_props split: option.splits)

lemma DataRow_unknown:
  "k \<noteq> ''__proto__'' \<Longrightarrow> \<not> contains (t_columns T) k \<Longrightarrow> props (r_values (DataRow t T)) k = None"
  by (simp add: DataRow_props contains_def map_of_eq_None_iff image_image)

lemma DataRow_known:
  "k \<noteq> ''__proto__'' \<Longrightarrow> contains (t_columns T) k \<Longrightarrow> \<exists>v. props (r_values (DataRow t T)) k = Some v"
proof -
  assume k: "k \<noteq> ''__proto__''" and c: "contains (t_columns T) k"
  have "map_of (rev (map (\<lambda>c. (columnName c, defaultValue c)) (t_columns T))) k \<noteq> None"
    using c by (simp add: contains_def map_of_eq_None_iff image_image)
  with k show ?thesis by (auto simp: DataRow_props)
qed


subsection \<open>Writing to a number column that does not allow null\<close>





subsection \<open>When \<open>set\<close> throws\<close>





subsection \<open>Removals that find nothing\<close>

lemma findIndex_none: "\<forall>x \<in> set xs. \<not> p x \<Longrightarrow> findIndex p xs = - 1"
  by (induction xs) simp_all

text \<open>
  Claim C8. \<open>removeRow\<close> with an index that is not inside the rows of the table (negative,
  not below the number of rows, or not a finite number) returns without an error and
  leaves the store as it was; \<open>removeRelation\<close> with a name that no relation of the data
  set has leaves the data set as it was.
\<close>

theorem removal_of_absent_is_noop:
  "(the_table h t = Some T \<and> (\<forall>q. i = Fin q \<longrightarrow> q < 0 \<or> of_nat (length (t_rows T)) \<le> q)
      \<longrightarrow> removeRow t i h = (Inr (), h)) \<and>
   (name \<notin> set (map relationName (relations ds)) \<longrightarrow> removeRelation name ds = ds)"
proof (intro conjI impI)
  assume a: "the_table h t = Some T \<and> (\<forall>q. i = Fin q \<longrightarrow> q < 0 \<or> of_nat (length (t_rows T)) \<le> q)"
  then have "\<not> in_range i (length (t_rows T))"
    by (cases i) (auto simp: in_range_def)
  with a show "removeRow t i h = (Inr (), h)"
    by (simp add: removeRow_def DataRowCollection_removeAt_def)
next
  assume "name \<notin> set (map relationName (relations ds))"
  then have "findIndex (\<lambda>rel. relationName rel = name) (relations ds) = - 1"
    by (intro findIndex_none) auto
  then show "removeRelation name ds = ds"
    by (simp add: removeRelation_def)
qed

theorem removal_of_absent_is_noop_witness:
  "the_table ex_heap 0 = Some ex_table \<and>
   removeRow 0 (Fin 1) ex_heap = (Inr (), ex_heap) \<and>
   removeRow 0 (Fin (- 1)) ex_heap = (Inr (), ex_heap) \<and>
   removeRow 0 NaN ex_heap = (Inr (), ex_heap) \<and>
   ''S'' \<notin> set (map relationName (relations ex_dataset)) \<and>
   removeRelation ''S'' ex_dataset = ex_dataset"
proof -
  have n: "''S'' \<notin> set (map relationName (relations ex_dataset))"
    by (simp add: ex_dataset_def ex_relation_def)
  have l: "length (t_rows ex_table) = 1"
    by (simp add: ex_table_def)
  have 1: "removeRow 0 (Fin 1) ex_heap = (Inr (), ex_heap)"
    using removal_of_absent_is_noop [of ex_heap 0 ex_table "Fin 1" "''S''" ex_dataset] ex_table0 l
    by simp
  have 2: "removeRow 0 (Fin (- 1)) ex_heap = (Inr (), ex_heap)"
    using removal_of_absent_is_noop [of ex_heap 0 ex_table "Fin (- 1)" "''S''" ex_dataset] ex_table0
    by simp
  have 3: "removeRow 0 NaN ex_heap = (Inr (), ex_heap)"
    using removal_of_absent_is_noop [of ex_heap 0 ex_table NaN "''S''" ex_dataset] ex_table0
    by simp
  have 4: "removeRelation ''S'' ex_dataset = ex_dataset"
    using removal_of_absent_is_noop [of ex_heap 0 ex_table NaN "''S''" ex_dataset] n
    by simp
  from ex_table0 1 2 3 n 4 show ?thesis by simp
qed


subsection \<open>Adding a row from an object\<close>

lemma fold_mapping_row:
  assumes "the_row h a = Some r"
  shows "the_row (fold (\<lambda>(k, v) h. if P k
                          then upd_row a (\<lambda>r. r\<lparr>r_values := setProp (r_values r) k v\<rparr>) h else h)
                    kvs h) a =
           Some (r\<lparr>r_values := fold (\<lambda>(k, v) ob. if P k then setProp ob k v else ob) kvs (r_values r)\<rparr>)"
  using assms
proof (induction kvs arbitrary: h r)
  case Nil
  then show ?case by simp
next
  case (Cons kv kvs)
  obtain k' v' where kv: "kv = (k', v')" by (cases kv)
  show ?case
  proof (cases "P k'")
    case True
    have "the_row (upd_row a (\<lambda>r. r\<lparr>r_values := setProp (r_values r) k' v'\<rparr>) h) a
            = Some (r\<lparr>r_values := setProp (r_values r) k' v'\<rparr>)"
      using Cons.prems by (rule the_row_upd_row)
    from Cons.IH [OF this] True show ?thesis by (simp add: kv)
  next
    case False
    with Cons.IH [OF Cons.prems] show ?thesis by (simp add: kv)
  qed
qed

lemma fold_mapping_table [simp]:
  "the_table (fold (\<lambda>(k, v) h. if P k then upd_row a (f k v) h else h) kvs h) t = the_table h t"
  by (induction kvs arbitrary: h) (auto split: prod.splits)

lemma addRow_mapping:
  assumes "the_table h t = Some T"
  shows "fst (addRow t (Mapping kvs) h) = Inr (length (h_rows h))"
    and "the_table (snd (addRow t (Mapping kvs) h)) t = Some (T\<lparr>t_rows := t_rows T @ [length (h_rows h)]\<rparr>)"
    and "the_row (snd (addRow t (Mapping kvs) h)) (length (h_rows h)) =
           Some ((DataRow t T)\<lparr>r_values :=
                   fold (\<lambda>(k, v) ob. if contains (t_columns T) k then setProp ob k v else ob) kvs
                     (r_values (DataRow t T))\<rparr>)"
proof -
  let ?a = "length (h_rows h)"
  let ?h1 = "h\<lparr>h_rows := h_rows h @ [DataRow t T]\<rparr>"
  let ?h2 = "fold (\<lambda>(k, v) h. if contains (t_columns T) k
                     then upd_row ?a (\<lambda>r. r\<lparr>r_values := setProp (r_values r) k v\<rparr>) h else h) kvs ?h1"
  have eq: "addRow t (Mapping kvs) h = (Inr ?a, push_row t ?a ?h2)"
    using assms by (simp add: addRow_def DataRowCollection_add_def alloc_row_def)
  show "fst (addRow t (Mapping kvs) h) = Inr ?a" by (simp add: eq)
  have "the_table ?h2 t = Some T" using assms by simp
  then show "the_table (snd (addRow t (Mapping kvs) h)) t = Some (T\<lparr>t_rows := t_rows T @ [?a]\<rparr>)"
    by (simp add: eq push_row_def the_table_upd_table)
  have "the_row ?h1 ?a = Some (DataRow t T)" by (rule the_row_alloc)
  from fold_mapping_row [OF this]
  show "the_row (snd (addRow t (Mapping kvs) h)) ?a =
           Some ((DataRow t T)\<lparr>r_values :=
                   fold (\<lambda>(k, v) ob. if contains (t_columns T) k then setProp ob k v else ob) kvs
                     (r_values (DataRow t T))\<rparr>)"
    by (simp add: eq)
qed

lemma get_after_addRow_mapping:
  assumes "the_table h t = Some T" and "contains (t_columns T) k"
  shows "DataRow_get H (length (h_rows h)) (Name k) (snd (addRow t (Mapping kvs) h)) =
           getProp H (fold (\<lambda>(k, v) ob. if contains (t_columns T) k then setProp ob k v else ob) kvs
                               (r_values (DataRow t T))) k"
  using assms(2)
  by (simp add: DataRow_get_def addRow_mapping(2,3) [OF assms(1)] DataRow_def)

text \<open>
  Claim C2, as amended. \<open>addRow\<close> with an object of column-value pairs creates a row,
  appends it to the table and returns it. A key that is not a column is ignored. The
  value of a key that is a column is assigned to the values of the row as it was given,
  with \<open>_values[key] = value\<close>, in the order of the entries: it is not converted to the
  type of the column and \<open>null\<close> is not rejected, since the values are written to the row
  directly and not through \<open>set\<close>. So every key other than \<open>__proto__\<close> that is a column
  holds the value given for it (the last one, if the key comes twice) or, without one,
  what the constructor of the row left there; a key that is not a column is not a
  property of the values. The row stays in the state \<open>ADDED\<close>, and no original value is
  recorded.
\<close>

theorem addRow_mapping_stores_as_given:
  assumes "the_table h t = Some T"
  shows "fst (addRow t (Mapping kvs) h) = Inr (length (h_rows h)) \<and>
         the_table (snd (addRow t (Mapping kvs) h)) t
           = Some (T\<lparr>t_rows := t_rows T @ [length (h_rows h)]\<rparr>) \<and>
         (\<exists>r. the_row (snd (addRow t (Mapping kvs) h)) (length (h_rows h)) = Some r \<and>
              r_rowState r = ADDED \<and> r_originalValues r = emptyObject \<and>
              r_values r = fold (\<lambda>(k, v) ob. if contains (t_columns T) k then setProp ob k v else ob)
                             kvs (r_values (DataRow t T)) \<and>
              (\<forall>k. k \<noteq> ''__proto__'' \<longrightarrow>
                 props (r_values r) k =
                   (if contains (t_columns T) k
                    then (case map_of (rev kvs) k of
                            Some v \<Rightarrow> Some v
                          | None \<Rightarrow> props (r_values (DataRow t T)) k)
                    else None)))"
  using addRow_mapping [OF assms, of kvs]
  by (auto simp: fold_assign_props DataRow_unknown) (simp_all add: DataRow_def)

text \<open>
  The claim as it was stated fails: the column \<open>n\<close> of the example table is of type
  number and does not allow null, yet \<open>addRow\<close> accepts \<open>null\<close> for it, and stores
  the string \<open>"42"\<close> as a string.
\<close>

theorem addRow_mapping_counterexample:
  "dataType ex_number_column = Some ''number'' \<and> \<not> allowNull ex_number_column \<and>
   columns_get (t_columns ex_table) ''n'' = Some ex_number_column \<and>
   fst (addRow 0 (Mapping [(''n'', JNull)]) ex_heap) = Inr 1 \<and>
   DataRow_get ex_host 1 (Name ''n'') (snd (addRow 0 (Mapping [(''n'', JNull)]) ex_heap)) = Inr JNull \<and>
   DataRow_get ex_host 1 (Name ''n'') (snd (addRow 0 (Mapping [(''n'', JString ''42'')]) ex_heap))
     = Inr (JString ''42'')"
proof -
  have l: "length (h_rows ex_heap) = 1" by (simp add: ex_heap_def)
  have c: "contains (t_columns ex_table) ''n''"
    using ex_get_n by (rule columns_get_contains)
  have 1: "fst (addRow 0 (Mapping [(''n'', JNull)]) ex_heap) = Inr 1"
    using addRow_mapping(1) [OF ex_table0, of "[(''n'', JNull)]"] by (simp add: l)
  have 2: "DataRow_get ex_host 1 (Name ''n'') (snd (addRow 0 (Mapping [(''n'', JNull)]) ex_heap)) = Inr JNull"
    using get_after_addRow_mapping [OF ex_table0 c, of ex_host "[(''n'', JNull)]"] c
    by (simp add: l getProp_setProp)
  have 3: "DataRow_get ex_host 1 (Name ''n'') (snd (addRow 0 (Mapping [(''n'', JString ''42'')]) ex_heap))
     = Inr (JString ''42'')"
    using get_after_addRow_mapping [OF ex_table0 c, of ex_host "[(''n'', JString ''42'')]"] c
    by (simp add: l getProp_setProp)
  have "dataType ex_number_column = Some ''number''" "\<not> allowNull ex_number_column"
    by (simp_all add: ex_number_column_def newColumn_def)
  with ex_get_n 1 2 3 show ?thesis by simp
qed

theorem addRow_mapping_stores_as_given_witness:
  "the_table ex_heap 0 = Some ex_table \<and>
   fst (addRow 0 (Mapping [(''zz'', JBool True), (''n'', JString ''42'')]) ex_heap) = Inr 1 \<and>
   (\<exists>r. the_row (snd (addRow 0 (Mapping [(''zz'', JBool True), (''n'', JString ''42'')]) ex_heap)) 1
           = Some r \<and>
        r_rowState r = ADDED \<and> props (r_values r) ''n'' = Some (JString ''42'') \<and>
        props (r_values r) ''zz'' = None)"
proof -
  have l: "length (h_rows ex_heap) = 1" by (simp add: ex_heap_def)
  have c: "contains (t_columns ex_table) ''n''"
    using ex_get_n by (rule columns_get_contains)
  have z: "\<not> contains (t_columns ex_table) ''zz''"
    by (simp add: contains_def ex_table_def ex_number_column_def newColumn_def)
  from addRow_mapping_stores_as_given [OF ex_table0, of "[(''zz'', JBool True), (''n'', JString ''42'')]"]
  obtain r where 1: "fst (addRow 0 (Mapping [(''zz'', JBool True), (''n'', JString ''42'')]) ex_heap) = Inr 1"
    and 2: "the_row (snd (addRow 0 (Mapping [(''zz'', JBool True), (''n'', JString ''42'')]) ex_heap)) 1 = Some r"
    and 3: "r_rowState r = ADDED"
    and 4: "\<forall>k. k \<noteq> ''__proto__'' \<longrightarrow> props (r_values r) k =
                 (if contains (t_columns ex_table) k
                  then (case map_of (rev [(''zz'', JBool True), (''n'', JString ''42'')]) k of
                          Some v \<Rightarrow> Some v
                        | None \<Rightarrow> props (r_values (DataRow 0 ex_table)) k)
                  else None)"
    unfolding l by (elim exE conjE)
  from 4 c have 5: "props (r_values r) ''n'' = Some (JString ''42'')" by simp
  from 4 z have 6: "props (r_values r) ''zz'' = None" by simp
  from ex_table0 1 2 3 5 6 show ?thesis
    by - (intro conjI exI [of _ r], assumption+)
qed


subsection \<open>What \<open>select\<close> returns\<close>

text \<open>
  Claim C6, as amended. \<open>select\<close> returns, for the rows of the table that satisfy the
  predicate, in the order of the table, the \<open>_values\<close> object of each row itself: not a
  \<open>DataRow\<close>, and not a copy. So a later \<open>set\<close> on such a row shows through the record
  returned before (what \<open>get\<close> returns is what the record reads), and a write to a
  returned record changes what \<open>get\<close> on the row returns: \<open>get\<close> returns what the record
  reads after the write, which is the value written for every key but \<open>__proto__\<close>
  (an assignment to that key of a plain object does not create a property).
\<close>

theorem select_returns_live_values:
  assumes "the_table h t = Some T" and "select t f h = Inr recs"
  shows "recs = map ValuesRef (filter (\<lambda>a. call f (valuesArg h a) = Inr True) (t_rows T)) \<and>
         (\<forall>a. ValuesRef a \<in> set recs \<longrightarrow>
            (\<forall>H n v h'. DataRow_set H a n v h = (Inr (), h') \<longrightarrow>
               DataRow_get H a (Name n) h' = read_record H (ValuesRef a) n h') \<and>
            (\<forall>H k v r T'. the_row h a = Some r \<and> the_table h (r_table r) = Some T' \<and>
                 contains (t_columns T') k \<longrightarrow>
               DataRow_get H a (Name k) (write_record (ValuesRef a) k v h)
                 = read_record H (ValuesRef a) k (write_record (ValuesRef a) k v h) \<and>
               (k \<noteq> ''__proto__'' \<longrightarrow>
                  DataRow_get H a (Name k) (write_record (ValuesRef a) k v h) = Inr v)))"
proof (intro conjI allI impI)
  from assms show "recs = map ValuesRef (filter (\<lambda>a. call f (valuesArg h a) = Inr True) (t_rows T))"
    by (auto simp: select_def split: sum.splits dest: filterE_Inr)
next
  fix a H n v h'
  assume "DataRow_set H a n v h = (Inr (), h')"
  from DataRow_set_Inr [OF this]
  obtain r T' c w d r' where r: "the_row h a = Some r" and T': "the_table h (r_table r) = Some T'"
    and c: "columns_get (t_columns T') n = Some c" and w: "written H n w r = Inr r'"
    and h': "h' = upd_row a (\<lambda>r. r') (h\<lparr>h_dates := d\<rparr>)"
    by blast
  have r': "the_row h' a = Some r'"
    unfolding h' using r by (simp add: the_row_upd_row)
  from written_Inr [OF w] have "r_table r' = r_table r" by simp
  then show "DataRow_get H a (Name n) h' = read_record H (ValuesRef a) n h'"
    using r' T' columns_get_contains [OF c]
    by (simp add: DataRow_get_def read_record_def h')
next
  fix a H k v r T'
  assume a: "the_row h a = Some r \<and> the_table h (r_table r) = Some T' \<and> contains (t_columns T') k"
  then have 1: "the_row (write_record (ValuesRef a) k v h) a = Some (r\<lparr>r_values := setProp (r_values r) k v\<rparr>)"
    by (simp add: write_record_def the_row_upd_row)
  with a show "DataRow_get H a (Name k) (write_record (ValuesRef a) k v h)
                 = read_record H (ValuesRef a) k (write_record (ValuesRef a) k v h)"
    by (simp add: DataRow_get_def read_record_def) (simp add: write_record_def)
  assume "k \<noteq> ''__proto__''"
  with a 1 show "DataRow_get H a (Name k) (write_record (ValuesRef a) k v h) = Inr v"
    by (simp add: DataRow_get_def getProp_setProp write_record_def)
qed

text \<open>
  The claim as it was stated fails: the record returned for the row of the example table
  reads \<open>null\<close> at \<open>n\<close>; after \<open>set\<close> on the row it reads 7; and after a write to the
  record, \<open>get\<close> on the row returns what was written.
\<close>

theorem select_snapshot_counterexample:
  "select 0 (\<lambda>x. Inr True) ex_heap = Inr [ValuesRef 0] \<and>
   read_record ex_host (ValuesRef 0) ''n'' ex_heap = Inr JNull \<and>
   fst (DataRow_set ex_host 0 ''n'' (JNumber (Fin 7)) ex_heap) = Inr () \<and>
   read_record ex_host (ValuesRef 0) ''n'' (snd (DataRow_set ex_host 0 ''n'' (JNumber (Fin 7)) ex_heap))
     = Inr (JNumber (Fin 7)) \<and>
   DataRow_get ex_host 0 (Name ''n'') ex_heap = Inr JNull \<and>
   DataRow_get ex_host 0 (Name ''n'') (write_record (ValuesRef 0) ''n'' (JString ''x'') ex_heap)
     = Inr (JString ''x'')"
proof -
  have 2: "read_record ex_host (ValuesRef 0) ''n'' ex_heap = Inr JNull"
    by (simp add: read_record_def ex_row0 getProp_def ex_row0_values)
  have s: "DataRow_set ex_host 0 ''n'' (JNumber (Fin 7)) ex_heap =
     (Inr (), upd_row 0 (\<lambda>r. \<lparr>r_table = 0, r_values = plainObject [''n'' \<mapsto> JNumber (Fin 7)],
          r_originalValues = plainObject [''n'' \<mapsto> JNull], r_rowState = MODIFIED\<rparr>)
        (ex_heap\<lparr>h_dates := h_dates ex_heap\<rparr>))"
    using ex_set [of "JNumber (Fin 7)" ex_host] by simp
  have 3: "fst (DataRow_set ex_host 0 ''n'' (JNumber (Fin 7)) ex_heap) = Inr ()"
    by (simp add: s)
  have 4: "read_record ex_host (ValuesRef 0) ''n'' (snd (DataRow_set ex_host 0 ''n'' (JNumber (Fin 7)) ex_heap))
     = Inr (JNumber (Fin 7))"
    by (simp add: s read_record_def the_row_upd_row [OF ex_row0] getProp_def)
  have 5: "DataRow_get ex_host 0 (Name ''n'') ex_heap = Inr JNull"
    by (simp add: DataRow_get_def ex_row0 ex_table_of_row0 ex_contains_n getProp_def ex_row0_values)
  have 6: "DataRow_get ex_host 0 (Name ''n'') (write_record (ValuesRef 0) ''n'' (JString ''x'') ex_heap)
     = Inr (JString ''x'')"
    by (simp add: DataRow_get_def write_record_def the_row_upd_row [OF ex_row0] ex_table_of_row0
        ex_contains_n getProp_setProp)
  from ex_select 2 3 4 5 6 show ?thesis by simp
qed

theorem select_returns_live_values_witness:
  "the_table ex_heap 0 = Some ex_table \<and>
   select 0 (\<lambda>x. Inr True) ex_heap = Inr [ValuesRef 0] \<and>
   the_row ex_heap 0 = Some (DataRow 0 ex_table) \<and>
   the_table ex_heap (r_table (DataRow 0 ex_table)) = Some ex_table \<and>
   contains (t_columns ex_table) ''n'' \<and>
   DataRow_get ex_host 0 (Name ''n'') (write_record (ValuesRef 0) ''n'' (JBool True) ex_heap)
     = Inr (JBool True) \<and>
   DataRow_set ex_host 0 ''n'' (JString ''42'') ex_heap
     = (Inr (), snd (DataRow_set ex_host 0 ''n'' (JString ''42'') ex_heap)) \<and>
   DataRow_get ex_host 0 (Name ''n'') (snd (DataRow_set ex_host 0 ''n'' (JString ''42'') ex_heap))
     = read_record ex_host (ValuesRef 0) ''n'' (snd (DataRow_set ex_host 0 ''n'' (JString ''42'') ex_heap))"
proof -
  note thm1 = select_returns_live_values [OF ex_table0 ex_select]
  have in0: "ValuesRef 0 \<in> set [ValuesRef 0]" by simp
  from thm1 in0
  have w: "\<forall>H k v r T'. the_row ex_heap 0 = Some r \<and> the_table ex_heap (r_table r) = Some T' \<and>
                 contains (t_columns T') k \<longrightarrow>
               (k \<noteq> ''__proto__'' \<longrightarrow>
                  DataRow_get H 0 (Name k) (write_record (ValuesRef 0) k v ex_heap) = Inr v)"
    by blast
  from w ex_row0 ex_table_of_row0 ex_contains_n
  have 1: "DataRow_get ex_host 0 (Name ''n'') (write_record (ValuesRef 0) ''n'' (JBool True) ex_heap)
     = Inr (JBool True)"
    by simp
  have s: "DataRow_set ex_host 0 ''n'' (JString ''42'') ex_heap
     = (Inr (), snd (DataRow_set ex_host 0 ''n'' (JString ''42'') ex_heap))"
    using ex_set [of "JString ''42''" ex_host] by (simp add: StringToNumber_42)
  from thm1 in0
  have "\<forall>H n v h'. DataRow_set H 0 n v ex_heap = (Inr (), h') \<longrightarrow>
               DataRow_get H 0 (Name n) h' = read_record H (ValuesRef 0) n h'"
    by blast
  with s
  have 2: "DataRow_get ex_host 0 (Name ''n'') (snd (DataRow_set ex_host 0 ''n'' (JString ''42'') ex_heap))
     = read_record ex_host (ValuesRef 0) ''n'' (snd (DataRow_set ex_host 0 ''n'' (JString ''42'') ex_heap))"
    by blast
  from ex_table0 ex_select ex_row0 ex_table_of_row0 ex_contains_n 1 s 2 show ?thesis by simp
qed


subsection \<open>The lookups of a relation\<close>

text \<open>Both lookups throw \<open>NotFound\<close> for a name that no relation of the data set has.\<close>

lemma relation_absent:
  assumes "name \<notin> set (map relationName (relations ds))"
  shows "getChildRows H fr ds a name h = Inl NotFound" and "getParentRow H fr ds a name h = Inl NotFound"
proof -
  have "find (\<lambda>rel. relationName rel = name) (relations ds) = None"
    using assms by (auto simp: find_None_iff)
  then show "getChildRows H fr ds a name h = Inl NotFound" "getParentRow H fr ds a name h = Inl NotFound"
    by (simp_all add: getChildRows_def getParentRow_def)
qed

text \<open>
  With the \<open>findRows\<close> of \<open>src/DataTable.js\<close>, the callback of \<open>getChildRows\<close> is handed
  the \<open>_values\<close> object of the first child row, and its call of \<open>get\<close> throws.
\<close>

lemma findRows_values_callback:
  assumes "the_table h t = Some T" and "t_rows T = a # as" and "the_row h a = Some r"
  shows "findRows H t (Predicate (relationCallback H n v)) h = Inl TypeError"
  using assms
  by (simp add: findRows_def relationCallback_def call_def valuesArg_def arg_get_def)

lemma getChildRows_src:
  assumes "find (\<lambda>rel. relationName rel = name) (relations ds) = Some rel"
    and "DataRow_get H p (Name (columnName (parentColumn rel))) h = Inr v"
    and "childTable rel = Some ct" and "the_table h ct = Some CT"
    and "t_rows CT = a # as" and "the_row h a = Some r"
  shows "getChildRows H (findRows H) ds p name h = Inl TypeError"
  using assms(1-3) by (simp add: getChildRows_def findRows_values_callback [OF assms(4-6)])

text \<open>
  With the \<open>findRows\<close> of the second \<open>DataTable\<close> source, \<open>getChildRows\<close> on a parent
  whose value is 7 returns the child rows whose value is 7, in the order of the table.
\<close>

lemma callback_row:
  "call (relationCallback H n v) (rowArg h a) =
     (case DataRow_get H a (Name n) h of Inl e \<Rightarrow> Inl e | Inr w \<Rightarrow> Inr (strictEq w v))"
  by (simp add: call_def rowArg_def relationCallback_def arg_get_def DataRow_get_def
        split: option.splits)

lemma getChildRows_alt:
  assumes "find (\<lambda>rel. relationName rel = name) (relations ds) = Some rel"
    and "DataRow_get H p (Name (columnName (parentColumn rel))) h = Inr (JNumber (Fin 7))"
    and "childTable rel = Some ct" and "the_table h ct = Some CT"
    and "\<forall>a \<in> set (t_rows CT). \<exists>v. DataRow_get H a (Name (columnName (childColumn rel))) h = Inr v"
  shows "getChildRows H (findRows_alt H) ds p name h =
           Inr (filter (\<lambda>a. DataRow_get H a (Name (columnName (childColumn rel))) h
                              = Inr (JNumber (Fin 7))) (t_rows CT))"
proof -
  let ?cb = "\<lambda>a. call (relationCallback H (columnName (childColumn rel)) (JNumber (Fin 7))) (rowArg h a)"
  have eq: "strictEq v (JNumber (Fin 7)) \<longleftrightarrow> v = JNumber (Fin 7)" for v
    by (cases v) auto
  have all: "\<forall>a \<in> set (t_rows CT). \<exists>b. ?cb a = Inr b"
    using assms(5) by (auto simp: callback_row)
  have "?cb a = Inr True \<longleftrightarrow> DataRow_get H a (Name (columnName (childColumn rel))) h = Inr (JNumber (Fin 7))"
    for a
    by (auto simp: callback_row eq split: sum.splits)
  then have "filterE ?cb (t_rows CT) =
      Inr (filter (\<lambda>a. DataRow_get H a (Name (columnName (childColumn rel))) h
                              = Inr (JNumber (Fin 7))) (t_rows CT))"
    using filterE_all_Inr [OF all] by simp
  then show ?thesis
    using assms(1-4) by (simp add: getChildRows_def findRows_alt_def)
qed

text \<open>
  Claim C3. The relation \<open>R\<close> of the example goes from \<open>P.id\<close> to \<open>C.pid\<close>; the parent
  row has \<open>id = 7\<close> and the first child row has \<open>pid = 7\<close>. With the \<open>findRows\<close> of
  \<open>src/DataTable.js\<close> both \<open>getChildRows\<close> and \<open>getParentRow\<close> throw a \<open>TypeError\<close>
  where the claim has them return the child row and the parent row; with the
  \<open>findRows\<close> of the second \<open>DataTable\<close> source they return them.
\<close>

theorem getChildRows_throws:
  "DataRow_get ex_host 0 (Name ''id'') ex_family_heap = Inr (JNumber (Fin 7)) \<and>
   DataRow_get ex_host 1 (Name ''pid'') ex_family_heap = Inr (JNumber (Fin 7)) \<and>
   getChildRows ex_host (findRows ex_host) ex_family 0 ''R'' ex_family_heap = Inl TypeError \<and>
   getParentRow ex_host (findRows ex_host) ex_family 1 ''R'' ex_family_heap = Inl TypeError \<and>
   getChildRows ex_host (findRows_alt ex_host) ex_family 0 ''R'' ex_family_heap = Inr [1] \<and>
   getParentRow ex_host (findRows_alt ex_host) ex_family 1 ''R'' ex_family_heap = Inr (Some 0)"
proof -
  have 1: "getChildRows ex_host (findRows ex_host) ex_family 0 ''R'' ex_family_heap = Inl TypeError"
    by (simp add: getChildRows_def ex_family_def ex_family_names ex_family_get findRows_def
          ex_family_tables)
       (simp add: ex_C_def call_def ex_family_args relationCallback_def arg_get_def)
  have 2: "getParentRow ex_host (findRows ex_host) ex_family 1 ''R'' ex_family_heap = Inl TypeError"
    by (simp add: getParentRow_def ex_family_def ex_family_names ex_family_get findOne_def
          findRows_def ex_family_tables)
       (simp add: ex_P_def call_def ex_family_args relationCallback_def arg_get_def)
  have 3: "getChildRows ex_host (findRows_alt ex_host) ex_family 0 ''R'' ex_family_heap = Inr [1]"
    by (simp add: getChildRows_def ex_family_def ex_family_names ex_family_get findRows_alt_def
          ex_family_tables)
       (simp add: ex_C_def call_def ex_family_args relationCallback_def arg_get_def
          ex_family_contains [unfolded ex_C_def, simplified] getProp_def)
  have 4: "getParentRow ex_host (findRows_alt ex_host) ex_family 1 ''R'' ex_family_heap = Inr (Some 0)"
    by (simp add: getParentRow_def ex_family_def ex_family_names ex_family_get findOne_def
          findRows_alt_def ex_family_tables)
       (simp add: ex_P_def call_def ex_family_args relationCallback_def arg_get_def
          ex_family_contains [unfolded ex_P_def, simplified] getProp_def)
  from ex_family_get(1,2) 1 2 3 4 show ?thesis by simp
qed


end
